theory Spec2Isabelle
  imports Complex_Main
begin

section \<open>JavaScript values and string primitives\<close>

text \<open>
  A JavaScript string is a sequence of code units; it is modelled as \<open>string\<close>
  (a \<open>char list\<close>), one \<open>char\<close> per code unit. The string primitives below follow
  \<open>String.prototype.split\<close>, \<open>Array.prototype.join\<close>, \<open>substring(0, i)\<close> and
  \<open>startsWith\<close> on such sequences.
\<close>

text \<open>\<open>s.split(sep)\<close> for a one-character separator: always at least one segment.\<close>

fun js_split :: "char \<Rightarrow> string \<Rightarrow> string list" where
  "js_split sep [] = [[]]"
| "js_split sep (c # cs) =
     (if c = sep then [] # js_split sep cs
      else (case js_split sep cs of
              [] \<Rightarrow> [[c]]
            | p # ps \<Rightarrow> (c # p) # ps))"

text \<open>\<open>parts.join(sep)\<close> for a list of strings.\<close>

fun js_join :: "string \<Rightarrow> string list \<Rightarrow> string" where
  "js_join sep [] = []"
| "js_join sep [p] = p"
| "js_join sep (p # q # ps) = p @ sep @ js_join sep (q # ps)"

text \<open>
  Values as the code meets them (\<open>unknown\<close> in the TypeScript): the JSON shapes plus
  \<open>undefined\<close>. Numbers are restricted to integers, and \<open>String\<close> renders them in
  full decimal, as JavaScript does for integers below \<open>1e21\<close>; fractions and larger
  magnitudes are outside the model. Objects are association lists in \<open>Object.entries\<close>
  order and only own properties are modelled.
\<close>

datatype jsvalue =
    JUndefined
  | JNull
  | JBool bool
  | JNum int
  | JStr string
  | JArr "jsvalue list"
  | JObj "(string \<times> jsvalue) list"

definition digit_char :: "nat \<Rightarrow> char" where
  "digit_char d = char_of (48 + d)"

fun nat_to_string :: "nat \<Rightarrow> string" where
  "nat_to_string n =
     (if n < 10 then [digit_char n]
      else nat_to_string (n div 10) @ [digit_char (n mod 10)])"

definition int_to_string :: "int \<Rightarrow> string" where
  "int_to_string i = (if i < 0 then CHR ''-'' # nat_to_string (nat (- i)) else nat_to_string (nat i))"

text \<open>
  \<open>String(v)\<close>: strings are returned as they are; an array is its elements joined by
  a comma with \<open>null\<close> and \<open>undefined\<close> elements rendered empty; a plain object is
  \<open>[object Object]\<close>.
\<close>

fun js_String :: "jsvalue \<Rightarrow> string" where
  "js_String JUndefined = ''undefined''"
| "js_String JNull = ''null''"
| "js_String (JBool b) = (if b then ''true'' else ''false'')"
| "js_String (JNum n) = int_to_string n"
| "js_String (JStr s) = s"
| "js_String (JArr vs) =
     js_join '','' (map (\<lambda>v. if v = JUndefined \<or> v = JNull then [] else js_String v) vs)"
| "js_String (JObj kvs) = ''[object Object]''"

text \<open>Truthiness of a value in a condition (\<open>if (v)\<close>, \<open>a && b\<close>).\<close>

fun truthy :: "jsvalue \<Rightarrow> bool" where
  "truthy JUndefined = False"
| "truthy JNull = False"
| "truthy (JBool b) = b"
| "truthy (JNum n) = (n \<noteq> 0)"
| "truthy (JStr s) = (s \<noteq> [])"
| "truthy (JArr vs) = True"
| "truthy (JObj kvs) = True"

text \<open>An optional string used as a condition: \<open>undefined\<close> and the empty string are falsy.\<close>

fun truthy_str :: "string option \<Rightarrow> bool" where
  "truthy_str None = False"
| "truthy_str (Some s) = (s \<noteq> [])"

text \<open>The string of an optional string that a truthiness check has already passed.\<close>

definition the_str :: "string option \<Rightarrow> string" where
  "the_str s = (case s of None \<Rightarrow> [] | Some x \<Rightarrow> x)"

section \<open>Dependency keys (dependency-extractor)\<close>

record QueryDependency =
  tableName :: string
  fieldName :: string
  fieldValue :: string
  indexName :: "string option"

text \<open>\<open>createDependencyKey\<close>: the template string \<open>table#field#value\<close>.\<close>

definition createDependencyKey :: "QueryDependency \<Rightarrow> string" where
  "createDependencyKey dependency =
     tableName dependency @ ''#'' @ fieldName dependency @ ''#'' @ fieldValue dependency"

text \<open>
  \<open>parseDependencyKey\<close>: \<open>null\<close> (here \<open>None\<close>) for fewer than three segments; the object
  literal it returns has no \<open>indexName\<close> property.
\<close>

definition parseDependencyKey :: "string \<Rightarrow> QueryDependency option" where
  "parseDependencyKey key =
     (let parts = js_split CHR ''#'' key in
      if length parts < 3 then None
      else Some \<lparr> tableName = parts ! 0,
                  fieldName = parts ! 1,
                  fieldValue = js_join ''#'' (drop 2 parts),
                  indexName = None \<rparr>)"

section \<open>Filter conditions (query-builder)\<close>

text \<open>
  An optional property of a JavaScript object is in one of three states: the object has
  no such own property, it has one that holds \<open>undefined\<close>, or it has one that holds a
  value. Reading the property gives \<open>undefined\<close> in the first two states; the document
  client tells them apart when it marshalls the object.
\<close>

datatype 'a member = Absent | Undefined | Holds 'a

definition valueOf :: "'a member \<Rightarrow> 'a option" where
  "valueOf m = (case m of Holds x \<Rightarrow> Some x | _ \<Rightarrow> None)"

text \<open>A property written in an object literal from a value that may be \<open>undefined\<close>.\<close>

definition given :: "'a option \<Rightarrow> 'a member" where
  "given v = (case v of None \<Rightarrow> Undefined | Some x \<Rightarrow> Holds x)"

text \<open>An optional property of type \<open>unknown\<close>: absent, or holding a value that may be \<open>undefined\<close>.\<close>

definition readValue :: "jsvalue option \<Rightarrow> jsvalue" where
  "readValue m = (case m of None \<Rightarrow> JUndefined | Some v \<Rightarrow> v)"

text \<open>
  \<open>FilterCondition\<close> is the serializable interface of the core package: \<open>type\<close>,
  \<open>operator\<close>, and the optional \<open>field\<close>, \<open>value\<close>, \<open>value2\<close> and \<open>conditions\<close>.
  The type tag is kept as a string and the operator may be missing, since the
  evaluator has branches for unknown tags and for a missing operator. The constructor
  holds the properties as the object has them; \<open>operator\<close>, \<open>field\<close>, \<open>cvalue\<close>,
  \<open>cvalue2\<close> and \<open>conditions\<close> are what reading them gives.
\<close>

datatype FilterCondition =
  FilterCondition (ctype: string) (operatorM: "string member") (fieldM: "string member")
    (valueM: "jsvalue option") (value2M: "jsvalue option")
    (conditionsM: "FilterCondition list member")

definition operator :: "FilterCondition \<Rightarrow> string option" where
  "operator c = valueOf (operatorM c)"

definition field :: "FilterCondition \<Rightarrow> string option" where
  "field c = valueOf (fieldM c)"

definition cvalue :: "FilterCondition \<Rightarrow> jsvalue" where
  "cvalue c = readValue (valueM c)"

definition cvalue2 :: "FilterCondition \<Rightarrow> jsvalue" where
  "cvalue2 c = readValue (value2M c)"

definition conditions :: "FilterCondition \<Rightarrow> FilterCondition list option" where
  "conditions c = valueOf (conditionsM c)"

text \<open>
  \<open>createCondition\<close> returns \<open>{ type, operator, field, value, value2 }\<close>: all five are own
  properties of the result, whatever was passed.
\<close>

definition createCondition ::
  "string \<Rightarrow> string \<Rightarrow> string option \<Rightarrow> jsvalue \<Rightarrow> jsvalue \<Rightarrow> FilterCondition" where
  "createCondition type op fld v v2 =
     FilterCondition type (Holds op) (given fld) (Some v) (Some v2) Absent"

text \<open>
  The methods of \<open>FilterBuilderImpl\<close>; \<open>fld\<close> is the field reference's \<open>fieldName\<close>. A
  parameter that a method does not pass on reaches \<open>createCondition\<close> as \<open>undefined\<close>. The
  logical methods build \<open>{ type, operator, conditions }\<close>.
\<close>

definition fb_eq :: "string \<Rightarrow> jsvalue \<Rightarrow> FilterCondition" where
  "fb_eq fld v = createCondition ''comparison'' ''='' (Some fld) v JUndefined"



definition fb_gte :: "string \<Rightarrow> jsvalue \<Rightarrow> FilterCondition" where
  "fb_gte fld v = createCondition ''comparison'' ''>='' (Some fld) v JUndefined"

definition fb_lt :: "string \<Rightarrow> jsvalue \<Rightarrow> FilterCondition" where
  "fb_lt fld v = createCondition ''comparison'' ''<'' (Some fld) v JUndefined"


definition fb_between :: "string \<Rightarrow> jsvalue \<Rightarrow> jsvalue \<Rightarrow> FilterCondition" where
  "fb_between fld lower upper = createCondition ''function'' ''BETWEEN'' (Some fld) lower upper"






record TrackedQueryOperation =
  op_tableName :: string
  filters :: "FilterCondition list"
  op_indexName :: "string option"
  pkField :: string
  skField :: "string option"
  sortField :: "string option"
  sortOrder :: "string option"
  limit :: "int option"

text \<open>
  \<open>QueryMetadata\<close>, with its optional properties as the object has them: the literal
  of \<open>operationToQueryMetadata\<close> writes all of them, the fallback literal of
  \<open>handleSubscribe\<close> writes none.
\<close>

record QueryMetadata =
  qm_tableName :: string
  qm_indexName :: "string member"
  filterConditions :: "FilterCondition list"
  qm_sortField :: "string member"
  qm_sortOrder :: "string member"
  qm_limit :: "int member"

section \<open>Dependency extraction (dependency-extractor)\<close>

text \<open>
  \<open>extractFromCondition\<close>: a switch on the type tag. An equality comparison is kept when
  its field is truthy and its value is not \<open>undefined\<close>; a \<open>begins_with\<close> function when
  its field and its value are truthy; a logical node is descended when it has
  \<open>conditions\<close>. Every other node contributes nothing.
\<close>

fun extractFromCondition ::
  "string \<Rightarrow> FilterCondition \<Rightarrow> string option \<Rightarrow> QueryDependency list" where
  "extractFromCondition tbl (FilterCondition type opM fM vM v2M csM) idx =
     (if type = ''comparison'' then
        (if valueOf opM = Some ''='' \<and> truthy_str (valueOf fM) \<and> readValue vM \<noteq> JUndefined then
           [\<lparr> tableName = tbl, fieldName = the_str (valueOf fM),
               fieldValue = js_String (readValue vM), indexName = idx \<rparr>]
         else [])
      else if type = ''function'' then
        (if valueOf opM = Some ''begins_with'' \<and> truthy_str (valueOf fM) \<and> truthy (readValue vM) then
           [\<lparr> tableName = tbl, fieldName = the_str (valueOf fM),
               fieldValue = ''prefix:'' @ js_String (readValue vM), indexName = idx \<rparr>]
         else [])
      else if type = ''logical'' then
        (case csM of
           Holds subs \<Rightarrow> concat (map (\<lambda>subCondition. extractFromCondition tbl subCondition idx) subs)
         | _ \<Rightarrow> [])
      else [])"

definition extractDependencies :: "TrackedQueryOperation \<Rightarrow> QueryDependency list" where
  "extractDependencies operation =
     concat (map (\<lambda>filter. extractFromCondition (op_tableName operation) filter (op_indexName operation))
                 (filters operation))"








text \<open>
  \<open>operationToQueryMetadata\<close>: \<open>operatorMap[filter.operator ?? ''] ?? filter.operator\<close>
  over the own keys of the three operator tables. The spread \<open>{...filter, operator: ...}\<close>
  keeps every own property of the filter and makes \<open>operator\<close> one, also when the new
  value is \<open>undefined\<close>.
\<close>

definition normalizeOperator :: "(string \<times> string) list \<Rightarrow> string option \<Rightarrow> string option" where
  "normalizeOperator operatorMap op =
     (case map_of operatorMap (case op of None \<Rightarrow> [] | Some k \<Rightarrow> k) of
        Some v \<Rightarrow> Some v
      | None \<Rightarrow> op)"

definition comparisonOperatorMap :: "(string \<times> string) list" where
  "comparisonOperatorMap =
     [(''='', ''eq''), (''<>'', ''ne''), (''>'', ''gt''), (''>='', ''gte''),
      (''<'', ''lt''), (''<='', ''lte'')]"

definition functionOperatorMap :: "(string \<times> string) list" where
  "functionOperatorMap = [(''begins_with'', ''beginsWith''), (''BETWEEN'', ''between'')]"

definition logicalOperatorMap :: "(string \<times> string) list" where
  "logicalOperatorMap = [(''AND'', ''and''), (''OR'', ''or''), (''NOT'', ''not'')]"

fun normalizeFilter :: "FilterCondition \<Rightarrow> FilterCondition" where
  "normalizeFilter (FilterCondition type opM fM vM v2M csM) =
     (if type = ''comparison'' then
        FilterCondition type (given (normalizeOperator comparisonOperatorMap (valueOf opM)))
          fM vM v2M csM
      else if type = ''function'' then
        FilterCondition type (given (normalizeOperator functionOperatorMap (valueOf opM)))
          fM vM v2M csM
      else if type = ''logical'' then
        (case csM of
           Holds subs \<Rightarrow>
             FilterCondition type (given (normalizeOperator logicalOperatorMap (valueOf opM)))
               fM vM v2M (Holds (map normalizeFilter subs))
         | _ \<Rightarrow> FilterCondition type opM fM vM v2M csM)
      else FilterCondition type opM fM vM v2M csM)"

definition normalizeFilters :: "FilterCondition list \<Rightarrow> FilterCondition list" where
  "normalizeFilters fs = map normalizeFilter fs"

definition operationToQueryMetadata :: "TrackedQueryOperation \<Rightarrow> QueryMetadata" where
  "operationToQueryMetadata operation =
     \<lparr> qm_tableName = op_tableName operation,
       qm_indexName = given (op_indexName operation),
       filterConditions = normalizeFilters (filters operation),
       qm_sortField = given (sortField operation),
       qm_sortOrder = given (sortOrder operation),
       qm_limit = given (limit operation) \<rparr>"

text \<open>
  \<open>DependencyTracker\<close>: its state is the private array \<open>operations\<close>; \<open>track\<close> pushes.
\<close>

type_synonym DependencyTracker = "TrackedQueryOperation list"

definition track :: "TrackedQueryOperation \<Rightarrow> DependencyTracker \<Rightarrow> DependencyTracker" where
  "track operation operations = operations @ [operation]"

definition extractAll :: "DependencyTracker \<Rightarrow> QueryDependency list" where
  "extractAll operations = concat (map extractDependencies operations)"

definition getDependencyKeys :: "DependencyTracker \<Rightarrow> string list" where
  "getDependencyKeys operations = map createDependencyKey (extractAll operations)"

definition getQueryMetadata :: "DependencyTracker \<Rightarrow> QueryMetadata option" where
  "getQueryMetadata operations =
     (case operations of
        [] \<Rightarrow> None
      | first # _ \<Rightarrow> Some (operationToQueryMetadata first))"

section \<open>Filter evaluation (filter-evaluator)\<close>

text \<open>Own-property lookup \<open>value[part]\<close> on a plain object and on an array.\<close>

definition obj_get :: "(string \<times> jsvalue) list \<Rightarrow> string \<Rightarrow> jsvalue" where
  "obj_get kvs part = (case map_of kvs part of None \<Rightarrow> JUndefined | Some v \<Rightarrow> v)"

definition arr_get :: "jsvalue list \<Rightarrow> string \<Rightarrow> jsvalue" where
  "arr_get vs part =
     (if part = ''length'' then JNum (int (length vs))
      else (case filter (\<lambda>i. nat_to_string i = part) [0 ..< length vs] of
              [] \<Rightarrow> JUndefined
            | i # _ \<Rightarrow> vs ! i))"

fun walkPath :: "jsvalue \<Rightarrow> string list \<Rightarrow> jsvalue" where
  "walkPath v [] = v"
| "walkPath v (part # parts) =
     (case v of
        JObj kvs \<Rightarrow> walkPath (obj_get kvs part) parts
      | JArr vs \<Rightarrow> walkPath (arr_get vs part) parts
      | _ \<Rightarrow> JUndefined)"

definition getFieldValue :: "jsvalue \<Rightarrow> string \<Rightarrow> jsvalue" where
  "getFieldValue record fld = walkPath record (js_split CHR ''.'' fld)"

text \<open>
  \<open>compareValues\<close>; only the sign of the result is used. \<open>localeCompare\<close> depends on the
  host's locale and is a parameter.
\<close>

definition nullish :: "jsvalue \<Rightarrow> bool" where
  "nullish v = (v = JNull \<or> v = JUndefined)"

definition compareValues :: "(string \<Rightarrow> string \<Rightarrow> int) \<Rightarrow> jsvalue \<Rightarrow> jsvalue \<Rightarrow> int" where
  "compareValues localeCompare a b =
     (if nullish a then (if nullish b then 0 else - 1)
      else if nullish b then 1
      else (case (a, b) of
              (JNum x, JNum y) \<Rightarrow> x - y
            | (JStr x, JStr y) \<Rightarrow> localeCompare x y
            | (JBool x, JBool y) \<Rightarrow> (if x = y then 0 else if x then 1 else - 1)
            | _ \<Rightarrow> localeCompare (js_String a) (js_String b)))"

text \<open>
  \<open>a === b\<close>: primitives compare by value; an object or array of a record is never
  the same reference as one of a filter.
\<close>

fun strict_eq :: "jsvalue \<Rightarrow> jsvalue \<Rightarrow> bool" where
  "strict_eq JUndefined JUndefined = True"
| "strict_eq JNull JNull = True"
| "strict_eq (JBool x) (JBool y) = (x = y)"
| "strict_eq (JNum x) (JNum y) = (x = y)"
| "strict_eq (JStr x) (JStr y) = (x = y)"
| "strict_eq _ _ = False"


text \<open>\<open>s.startsWith(p)\<close> and \<open>s.includes(p)\<close>.\<close>

fun startsWith :: "string \<Rightarrow> string \<Rightarrow> bool" where
  "startsWith s [] = True"
| "startsWith [] (p # ps) = False"
| "startsWith (c # cs) (p # ps) = (c = p \<and> startsWith cs ps)"

fun js_includes :: "string \<Rightarrow> string \<Rightarrow> bool" where
  "js_includes [] p = (p = [])"
| "js_includes (c # cs) p = (startsWith (c # cs) p \<or> js_includes cs p)"

definition evaluateComparison ::
  "(string \<Rightarrow> string \<Rightarrow> int) \<Rightarrow> FilterCondition \<Rightarrow> jsvalue \<Rightarrow> bool" where
  "evaluateComparison localeCompare flt record =
     (if \<not> truthy_str (field flt) \<or> \<not> truthy_str (operator flt) then False
      else
        let fValue = getFieldValue record (the_str (field flt));
            op = the_str (operator flt)
        in if op = ''eq'' then strict_eq fValue (cvalue flt)
           else if op = ''ne'' then \<not> strict_eq fValue (cvalue flt)
           else if op = ''gt'' then compareValues localeCompare fValue (cvalue flt) > 0
           else if op = ''gte'' then compareValues localeCompare fValue (cvalue flt) \<ge> 0
           else if op = ''lt'' then compareValues localeCompare fValue (cvalue flt) < 0
           else if op = ''lte'' then compareValues localeCompare fValue (cvalue flt) \<le> 0
           else if op = ''between'' then
             compareValues localeCompare fValue (cvalue flt) \<ge> 0 \<and>
             compareValues localeCompare fValue (cvalue2 flt) \<le> 0
           else False)"

definition evaluateFunction :: "FilterCondition \<Rightarrow> jsvalue \<Rightarrow> bool" where
  "evaluateFunction flt record =
     (if \<not> truthy_str (field flt) \<or> \<not> truthy_str (operator flt) then False
      else
        let fValue = getFieldValue record (the_str (field flt));
            op = the_str (operator flt)
        in if op = ''beginsWith'' then
             (case (fValue, cvalue flt) of
                (JStr s, JStr p) \<Rightarrow> startsWith s p
              | _ \<Rightarrow> False)
           else if op = ''contains'' then
             (case (fValue, cvalue flt) of
                (JStr s, JStr p) \<Rightarrow> js_includes s p
              | _ \<Rightarrow> False)
           else False)"

text \<open>
  \<open>evaluateFilter\<close> with \<open>evaluateLogical\<close> inlined (they are mutually recursive in the
  source): \<open>every\<close>, \<open>some\<close>, and \<open>not\<close> on the first child only.
\<close>

fun evaluateFilter ::
  "(string \<Rightarrow> string \<Rightarrow> int) \<Rightarrow> FilterCondition \<Rightarrow> jsvalue \<Rightarrow> bool" where
  "evaluateFilter localeCompare (FilterCondition type opM fM vM v2M csM) record =
     (if type = ''comparison'' then
        evaluateComparison localeCompare (FilterCondition type opM fM vM v2M csM) record
      else if type = ''logical'' then
        (if \<not> truthy_str (valueOf opM) then False
         else (case csM of
                 Holds subs \<Rightarrow>
                   if valueOf opM = Some ''and'' then
                     list_all (\<lambda>c. evaluateFilter localeCompare c record) subs
                   else if valueOf opM = Some ''or'' then
                     list_ex (\<lambda>c. evaluateFilter localeCompare c record) subs
                   else if valueOf opM = Some ''not'' then
                     (case subs of
                        [] \<Rightarrow> False
                      | c # _ \<Rightarrow> \<not> evaluateFilter localeCompare c record)
                   else False
               | _ \<Rightarrow> False))
      else if type = ''function'' then
        evaluateFunction (FilterCondition type opM fM vM v2M csM) record
      else False)"

definition evaluateFilters ::
  "(string \<Rightarrow> string \<Rightarrow> int) \<Rightarrow> FilterCondition list \<Rightarrow> jsvalue \<Rightarrow> bool" where
  "evaluateFilters localeCompare fs record =
     (if length fs = 0 then True else list_all (\<lambda>f. evaluateFilter localeCompare f record) fs)"

section \<open>Procedures and the router (procedure, router)\<close>

text \<open>
  A thrown value is an \<open>Error\<close> with its message or any other value. A failing
  computation (a throw, a rejected promise) is \<open>Inl\<close> of the thrown value.
\<close>

datatype error = Error string | Thrown jsvalue

text \<open>
  A procedure: its type tag, the optional input schema (\<open>safeParse\<close>: the error message or
  the parsed data) and the resolver. Running the resolver against a context and an input
  either throws or returns its result together with the query operations that its
  \<open>db.query(...).execute()\<close> calls handed to the tracker, in call order.
\<close>

record Procedure =
  ptype :: string
  inputSchema :: "(jsvalue \<Rightarrow> string + jsvalue) option"
  resolver :: "jsvalue \<Rightarrow> jsvalue \<Rightarrow> error + (jsvalue \<times> TrackedQueryOperation list)"

datatype RouterDefinition =
    ProcedureNode Procedure
  | RouterNode "(string \<times> RouterDefinition) list"

definition executeProcedure ::
  "Procedure \<Rightarrow> jsvalue \<Rightarrow> jsvalue \<Rightarrow> error + (jsvalue \<times> TrackedQueryOperation list)" where
  "executeProcedure procedure ctx rawInput =
     (case inputSchema procedure of
        Some safeParse \<Rightarrow>
          (case safeParse rawInput of
             Inl message \<Rightarrow> Inl (Error (''Invalid input: '' @ message))
           | Inr input \<Rightarrow> resolver procedure ctx input)
      | None \<Rightarrow> resolver procedure ctx rawInput)"

text \<open>
  \<open>Router.getProcedure\<close>: the walk along the dotted path; it ends at a procedure only
  when the last part names an object that \<open>isProcedure\<close> accepts, one whose type is
  \<open>query\<close> or \<open>mutation\<close>.
\<close>

fun walkRouter :: "RouterDefinition \<Rightarrow> string list \<Rightarrow> Procedure option" where
  "walkRouter (ProcedureNode p) [] =
     (if ptype p = ''query'' \<or> ptype p = ''mutation'' then Some p else None)"
| "walkRouter (ProcedureNode p) (part # parts) = None"
| "walkRouter (RouterNode kvs) [] = None"
| "walkRouter (RouterNode kvs) (part # parts) =
     (case map_of kvs part of
        None \<Rightarrow> None
      | Some node \<Rightarrow> walkRouter node parts)"

definition getProcedure :: "RouterDefinition \<Rightarrow> string \<Rightarrow> Procedure option" where
  "getProcedure definition path = walkRouter definition (js_split CHR ''.'' path)"

definition execute ::
  "RouterDefinition \<Rightarrow> string \<Rightarrow> jsvalue \<Rightarrow> jsvalue \<Rightarrow>
     error + (jsvalue \<times> TrackedQueryOperation list)" where
  "execute definition path ctx input =
     (case getProcedure definition path of
        None \<Rightarrow> Inl (Error (''Procedure not found: '' @ path))
      | Some procedure \<Rightarrow> executeProcedure procedure ctx input)"

section \<open>The system tables and the document client\<close>

record QueryEntry =
  qe_pk :: string
  qe_sk :: string
  qe_connectionId :: string
  qe_subscriptionId :: string
  queryMetadata :: QueryMetadata
  lastResult :: jsvalue
  dependencies :: "string list"
  createdAt :: int
  updatedAt :: int
  qe_ttl :: int

record DependencyItem =
  dep_pk :: string
  dep_sk :: string
  dep_connectionId :: string
  dep_subscriptionId :: string
  dep_ttl :: int

text \<open>
  The two system tables the handlers write, each keyed by \<open>(pk, sk)\<close>. A put that the
  client accepts stores the item under its own key, an accepted delete removes the key.
  Procedures act on the application's tables, which are not part of this state.
\<close>

record Store =
  queriesTable :: "(string \<times> string) \<rightharpoonup> QueryEntry"
  dependenciesTable :: "(string \<times> string) \<rightharpoonup> DependencyItem"

definition emptyStore :: Store where
  "emptyStore = \<lparr> queriesTable = Map.empty, dependenciesTable = Map.empty \<rparr>"

definition putQuery :: "QueryEntry \<Rightarrow> Store \<Rightarrow> Store" where
  "putQuery item s = s\<lparr> queriesTable := (queriesTable s)((qe_pk item, qe_sk item) \<mapsto> item) \<rparr>"

definition deleteQuery :: "string \<times> string \<Rightarrow> Store \<Rightarrow> Store" where
  "deleteQuery k s = s\<lparr> queriesTable := (queriesTable s)(k := None) \<rparr>"

definition putDependency :: "DependencyItem \<Rightarrow> Store \<Rightarrow> Store" where
  "putDependency item s =
     s\<lparr> dependenciesTable := (dependenciesTable s)((dep_pk item, dep_sk item) \<mapsto> item) \<rparr>"

definition deleteDependency :: "string \<times> string \<Rightarrow> Store \<Rightarrow> Store" where
  "deleteDependency k s = s\<lparr> dependenciesTable := (dependenciesTable s)(k := None) \<rparr>"

text \<open>
  The objects handed to the document client, property by property as the source builds
  them. An absent optional property gives no entry, one that holds \<open>undefined\<close> gives an
  entry with \<open>JUndefined\<close>.
\<close>

definition memberItem :: "string \<Rightarrow> ('a \<Rightarrow> jsvalue) \<Rightarrow> 'a member \<Rightarrow> (string \<times> jsvalue) list" where
  "memberItem k f m =
     (case m of Absent \<Rightarrow> [] | Undefined \<Rightarrow> [(k, JUndefined)] | Holds x \<Rightarrow> [(k, f x)])"

definition optionItem :: "string \<Rightarrow> jsvalue option \<Rightarrow> (string \<times> jsvalue) list" where
  "optionItem k m = (case m of None \<Rightarrow> [] | Some v \<Rightarrow> [(k, v)])"

fun filterItem :: "FilterCondition \<Rightarrow> jsvalue" where
  "filterItem (FilterCondition type opM fM vM v2M csM) =
     JObj ([(''type'', JStr type)] @ memberItem ''operator'' JStr opM @
           memberItem ''field'' JStr fM @ optionItem ''value'' vM @ optionItem ''value2'' v2M @
           (case csM of
              Absent \<Rightarrow> []
            | Undefined \<Rightarrow> [(''conditions'', JUndefined)]
            | Holds subs \<Rightarrow> [(''conditions'', JArr (map filterItem subs))]))"

definition metadataItem :: "QueryMetadata \<Rightarrow> jsvalue" where
  "metadataItem m =
     JObj ([(''tableName'', JStr (qm_tableName m))] @ memberItem ''indexName'' JStr (qm_indexName m) @
           [(''filterConditions'', JArr (map filterItem (filterConditions m)))] @
           memberItem ''sortField'' JStr (qm_sortField m) @
           memberItem ''sortOrder'' JStr (qm_sortOrder m) @
           memberItem ''limit'' JNum (qm_limit m))"

definition queryEntryItem :: "QueryEntry \<Rightarrow> jsvalue" where
  "queryEntryItem e =
     JObj [(''pk'', JStr (qe_pk e)), (''sk'', JStr (qe_sk e)),
           (''connectionId'', JStr (qe_connectionId e)),
           (''subscriptionId'', JStr (qe_subscriptionId e)),
           (''queryMetadata'', metadataItem (queryMetadata e)),
           (''lastResult'', lastResult e),
           (''dependencies'', JArr (map JStr (dependencies e))),
           (''createdAt'', JNum (createdAt e)), (''updatedAt'', JNum (updatedAt e)),
           (''ttl'', JNum (qe_ttl e))]"

definition dependencyItemObject :: "DependencyItem \<Rightarrow> jsvalue" where
  "dependencyItemObject d =
     JObj [(''pk'', JStr (dep_pk d)), (''sk'', JStr (dep_sk d)),
           (''connectionId'', JStr (dep_connectionId d)),
           (''subscriptionId'', JStr (dep_subscriptionId d)),
           (''ttl'', JNum (dep_ttl d))]"

definition keyObject :: "string \<times> string \<Rightarrow> jsvalue" where
  "keyObject k = JObj [(''pk'', JStr (fst k)), (''sk'', JStr (snd k))]"

text \<open>
  The commands sent with \<open>docClient.send\<close>: the table name and the item or key. The
  table names are the defaults of \<open>SystemTableNames\<close>.
\<close>

datatype Command =
    PutCommand string jsvalue
  | GetCommand string jsvalue
  | DeleteCommand string jsvalue

definition queriesTableName :: string where
  "queriesTableName = ''ReactiveConnectionQueries''"

definition dependenciesTableName :: string where
  "dependenciesTableName = ''ReactiveDependencies''"

text \<open>
  The document client is a dependency of the repository and a parameter here: for a
  command, \<open>send\<close> either throws (the error, and the tables are as before) or the command
  takes effect. Marshalling errors, the service's own validation and transport failures
  are all instances.
\<close>

type_synonym DocumentClient = "Command \<Rightarrow> error option"

text \<open>
  Modelled from the AWS SDK, which is not code of this repository: what the client made
  by \<open>DynamoDBDocumentClient.from(ddbClient)\<close>, with no marshall options, does before it
  sends anything. Marshalling walks the item's properties and elements in order and
  throws at the first \<open>undefined\<close> (the option \<open>removeUndefinedValues\<close> is off) and at
  the first number outside the safe integer range.
\<close>

fun firstError :: "error option list \<Rightarrow> error option" where
  "firstError [] = None"
| "firstError (Some e # rest) = Some e"
| "firstError (None # rest) = firstError rest"

fun marshallError :: "jsvalue \<Rightarrow> error option" where
  "marshallError JUndefined =
     Some (Error ''Pass options.removeUndefinedValues=true to remove undefined values from map/array/set.'')"
| "marshallError JNull = None"
| "marshallError (JBool b) = None"
| "marshallError (JNum n) =
     (if n > 9007199254740991 then
        Some (Error (''Number '' @ int_to_string n @
                     '' is greater than Number.MAX_SAFE_INTEGER. Use BigInt.''))
      else if n < - 9007199254740991 then
        Some (Error (''Number '' @ int_to_string n @
                     '' is lesser than Number.MIN_SAFE_INTEGER. Use BigInt.''))
      else None)"
| "marshallError (JStr s) = None"
| "marshallError (JArr vs) = firstError (map marshallError vs)"
| "marshallError (JObj kvs) = firstError (map (\<lambda>kv. marshallError (snd kv)) kvs)"

definition documentClient :: DocumentClient where
  "documentClient command =
     (case command of
        PutCommand table item \<Rightarrow> marshallError item
      | GetCommand table key \<Rightarrow> marshallError key
      | DeleteCommand table key \<Rightarrow> marshallError key)"

section \<open>The reactive handler (reactive-handler)\<close>

datatype ReactiveRequest =
    SubscribeRequest string string jsvalue
  | UnsubscribeRequest string
  | CallRequest string jsvalue
  | OtherRequest string

datatype ReactiveResponse =
    SnapshotResponse string jsvalue
  | PatchResponse string "jsvalue list"
  | ResultResponse jsvalue
  | ErrorResponse string "string option"

text \<open>
  The configuration of the handler, together with the document client that
  \<open>createReactiveHandler\<close> creates for it.
\<close>

record ReactiveHandlerConfig =
  router :: RouterDefinition
  getContext :: "string \<Rightarrow> error + jsvalue"
  ttlSeconds :: "int option"
  docClient :: DocumentClient

definition isArray :: "jsvalue \<Rightarrow> bool" where
  "isArray v = (case v of JArr _ \<Rightarrow> True | _ \<Rightarrow> False)"

text \<open>
  The \<open>queryEntry\<close> object literal of \<open>handleSubscribe\<close>: \<open>lastResult\<close> is the result
  when \<open>Array.isArray(result)\<close> and the one-element array around it otherwise; an
  absent metadata is replaced by the literal \<open>{ tableName: '', filterConditions: [] }\<close>.
\<close>

definition makeQueryEntry ::
  "string \<Rightarrow> string \<Rightarrow> QueryMetadata option \<Rightarrow> jsvalue \<Rightarrow> string list \<Rightarrow> int \<Rightarrow> int \<Rightarrow> QueryEntry" where
  "makeQueryEntry connectionId subscriptionId metadata result dependencyKeys now ttl =
     \<lparr> qe_pk = connectionId,
       qe_sk = subscriptionId,
       qe_connectionId = connectionId,
       qe_subscriptionId = subscriptionId,
       queryMetadata =
         (case metadata of
            Some m \<Rightarrow> m
          | None \<Rightarrow> \<lparr> qm_tableName = [], qm_indexName = Absent, filterConditions = [],
                      qm_sortField = Absent, qm_sortOrder = Absent, qm_limit = Absent \<rparr>),
       lastResult = (if isArray result then result else JArr [result]),
       dependencies = dependencyKeys,
       createdAt = now,
       updatedAt = now,
       qe_ttl = ttl \<rparr>"

text \<open>The item put into the dependencies table for one key.\<close>

definition makeDependencyItem :: "string \<Rightarrow> string \<Rightarrow> int \<Rightarrow> string \<Rightarrow> DependencyItem" where
  "makeDependencyItem connectionId subscriptionId ttl key =
     \<lparr> dep_pk = key,
       dep_sk = connectionId @ ''#'' @ subscriptionId,
       dep_connectionId = connectionId,
       dep_subscriptionId = subscriptionId,
       dep_ttl = ttl \<rparr>"

text \<open>
  The loop over the dependency keys: one awaited put per key, in order; the first put
  that throws ends the loop, and the items put before it stay.
\<close>

fun putDependencies :: "DocumentClient \<Rightarrow> DependencyItem list \<Rightarrow> Store \<Rightarrow> Store \<times> error option" where
  "putDependencies client [] s = (s, None)"
| "putDependencies client (item # items) s =
     (case client (PutCommand dependenciesTableName (dependencyItemObject item)) of
        Some e \<Rightarrow> (s, Some e)
      | None \<Rightarrow> putDependencies client items (putDependency item s))"

text \<open>
  \<open>handleSubscribe\<close>. \<open>now\<close> is the value of \<open>Date.now()\<close>. The awaited
  \<open>router.execute\<close> comes first; when it throws, the function is left at once and its
  promise is rejected. Then the subscription row is put, then one dependency item per
  key; a put that throws rejects the promise as well, with what was put before it in
  place. Only after the last put the snapshot is returned, with the result as the
  procedure returned it.
\<close>

definition handleSubscribe ::
  "ReactiveHandlerConfig \<Rightarrow> int \<Rightarrow> Store \<Rightarrow> string \<Rightarrow> string \<Rightarrow> string \<Rightarrow> jsvalue \<Rightarrow>
     jsvalue \<Rightarrow> DependencyTracker \<Rightarrow> Store \<times> (error + ReactiveResponse)" where
  "handleSubscribe config now store connectionId subscriptionId path input ctx dependencyTracker =
     (case execute (router config) path ctx input of
        Inl e \<Rightarrow> (store, Inl e)
      | Inr (result, tracked) \<Rightarrow>
          let operations = fold track tracked dependencyTracker;
              metadata = getQueryMetadata operations;
              dependencyKeys = getDependencyKeys operations;
              ttl = now div 1000 + (case ttlSeconds config of None \<Rightarrow> 3600 | Some t \<Rightarrow> t);
              queryEntry =
                makeQueryEntry connectionId subscriptionId metadata result dependencyKeys now ttl
          in (case docClient config (PutCommand queriesTableName (queryEntryItem queryEntry)) of
                Some e \<Rightarrow> (store, Inl e)
              | None \<Rightarrow>
                  (case putDependencies (docClient config)
                          (map (makeDependencyItem connectionId subscriptionId ttl) dependencyKeys)
                          (putQuery queryEntry store) of
                     (store2, Some e) \<Rightarrow> (store2, Inl e)
                   | (store2, None) \<Rightarrow> (store2, Inr (SnapshotResponse subscriptionId result)))))"

text \<open>The loop of \<open>handleUnsubscribe\<close> over the dependency keys of the row: one delete per key.\<close>

fun deleteDependencies ::
  "DocumentClient \<Rightarrow> (string \<times> string) list \<Rightarrow> Store \<Rightarrow> Store \<times> error option" where
  "deleteDependencies client [] s = (s, None)"
| "deleteDependencies client (k # ks) s =
     (case client (DeleteCommand dependenciesTableName (keyObject k)) of
        Some e \<Rightarrow> (s, Some e)
      | None \<Rightarrow> deleteDependencies client ks (deleteDependency k s))"

definition handleUnsubscribe ::
  "ReactiveHandlerConfig \<Rightarrow> Store \<Rightarrow> string \<Rightarrow> string \<Rightarrow> Store \<times> (error + ReactiveResponse)" where
  "handleUnsubscribe config store connectionId subscriptionId =
     (case docClient config (GetCommand queriesTableName (keyObject (connectionId, subscriptionId))) of
        Some e \<Rightarrow> (store, Inl e)
      | None \<Rightarrow>
          (case deleteDependencies (docClient config)
                  (case queriesTable store (connectionId, subscriptionId) of
                     None \<Rightarrow> []
                   | Some queryEntry \<Rightarrow>
                       map (\<lambda>key. (key, connectionId @ ''#'' @ subscriptionId))
                           (dependencies queryEntry))
                  store of
             (store1, Some e) \<Rightarrow> (store1, Inl e)
           | (store1, None) \<Rightarrow>
               (case docClient config
                       (DeleteCommand queriesTableName (keyObject (connectionId, subscriptionId))) of
                  Some e \<Rightarrow> (store1, Inl e)
                | None \<Rightarrow>
                    (deleteQuery (connectionId, subscriptionId) store1,
                     Inr (ResultResponse (JObj [(''success'', JBool True)]))))))"

definition handleCall ::
  "ReactiveHandlerConfig \<Rightarrow> Store \<Rightarrow> string \<Rightarrow> jsvalue \<Rightarrow> jsvalue \<Rightarrow>
     Store \<times> (error + ReactiveResponse)" where
  "handleCall config store path input ctx =
     (case execute (router config) path ctx input of
        Inl e \<Rightarrow> (store, Inl e)
      | Inr (result, tracked) \<Rightarrow> (store, Inr (ResultResponse result)))"

definition errorMessage :: "error \<Rightarrow> string" where
  "errorMessage e = (case e of Error message \<Rightarrow> message | Thrown _ \<Rightarrow> ''Unknown error'')"

definition requestSubscriptionId :: "ReactiveRequest \<Rightarrow> string option" where
  "requestSubscriptionId request =
     (case request of
        SubscribeRequest subscriptionId _ _ \<Rightarrow> Some subscriptionId
      | UnsubscribeRequest subscriptionId \<Rightarrow> Some subscriptionId
      | _ \<Rightarrow> None)"

text \<open>
  \<open>handleRequest\<close>. Inside its \<open>try\<close> block only \<open>getContext\<close> is awaited, so only its
  failure reaches the \<open>catch\<close> clause and becomes an error response. The three handlers
  are async functions whose promises are returned without \<open>await\<close>: the promise of
  \<open>handleRequest\<close> settles as the returned promise does, and a rejection of that promise
  is a rejection of \<open>handleRequest\<close> (\<open>Inl\<close>), not a value of the \<open>catch\<close> clause. A fresh
  tracker is created for every request.
\<close>

definition handleRequest ::
  "ReactiveHandlerConfig \<Rightarrow> int \<Rightarrow> Store \<Rightarrow> string \<Rightarrow> ReactiveRequest \<Rightarrow>
     Store \<times> (error + ReactiveResponse)" where
  "handleRequest config now store connectionId request =
     (case getContext config connectionId of
        Inl e \<Rightarrow> (store, Inr (ErrorResponse (errorMessage e) (requestSubscriptionId request)))
      | Inr ctx \<Rightarrow>
          (case request of
             SubscribeRequest subscriptionId path input \<Rightarrow>
               handleSubscribe config now store connectionId subscriptionId path input ctx []
           | UnsubscribeRequest subscriptionId \<Rightarrow>
               handleUnsubscribe config store connectionId subscriptionId
           | CallRequest path input \<Rightarrow> handleCall config store path input ctx
           | OtherRequest type \<Rightarrow>
               (store, Inr (ErrorResponse (''Unknown request type: '' @ type) None))))"

section \<open>The stream handler's state update (stream-handler)\<close>

text \<open>
  \<open>getQueryState\<close>: the row, or \<open>null\<close> when the get throws (the error is caught) or
  there is no row.
\<close>

definition getQueryState :: "DocumentClient \<Rightarrow> Store \<Rightarrow> string \<Rightarrow> string \<Rightarrow> QueryEntry option" where
  "getQueryState client store connectionId subscriptionId =
     (case client (GetCommand queriesTableName (keyObject (connectionId, subscriptionId))) of
        Some e \<Rightarrow> None
      | None \<Rightarrow> queriesTable store (connectionId, subscriptionId))"

text \<open>
  \<open>updateQueryState\<close>, with the stream handler's own document client: nothing happens
  when the row is gone; otherwise, after a second get, the row is put back with the new
  result, an array by its type \<open>unknown[]\<close>, and the new time. Every error is caught
  and logged, and then nothing is written. The \<open>processSubscription\<close> of the Lambda
  handlers performs the same put.
\<close>

definition updateQueryState ::
  "DocumentClient \<Rightarrow> int \<Rightarrow> Store \<Rightarrow> string \<Rightarrow> string \<Rightarrow> jsvalue list \<Rightarrow> Store" where
  "updateQueryState client now store connectionId subscriptionId newResult =
     (case getQueryState client store connectionId subscriptionId of
        None \<Rightarrow> store
      | Some existing \<Rightarrow>
          (case client (GetCommand queriesTableName (keyObject (connectionId, subscriptionId))) of
             Some e \<Rightarrow> store
           | None \<Rightarrow>
               let item = existing\<lparr> lastResult := JArr newResult, updatedAt := now \<rparr>
               in (case client (PutCommand queriesTableName (queryEntryItem item)) of
                     Some e \<Rightarrow> store
                   | None \<Rightarrow> putQuery item store)))"

text \<open>The stores that requests and state updates can produce from the empty tables.\<close>

inductive reachable :: "Store \<Rightarrow> bool" where
  reach_empty: "reachable emptyStore"
| reach_request:
    "reachable s \<Longrightarrow> reachable (fst (handleRequest config now s connectionId request))"
| reach_update:
    "reachable s \<Longrightarrow>
       reachable (updateQueryState client now s connectionId subscriptionId newResult)"

section \<open>Reconnection (websocket manager of the client)\<close>

datatype ConnectionState = Connecting | Connected | Disconnected | Reconnecting

text \<open>
  The fields of \<open>WebSocketManager\<close> that \<open>scheduleReconnect\<close> reads and writes. Delays are
  real numbers of milliseconds; \<open>reconnectTimer\<close> holds the delay of the pending timer.
\<close>

record WebSocketManager =
  reconnectDelay :: real
  maxReconnectAttempts :: int
  state :: ConnectionState
  reconnectAttempts :: nat
  reconnectTimer :: "real option"

text \<open>
  \<open>scheduleReconnect\<close>; \<open>random\<close> is the value \<open>Math.random()\<close> returns on this call,
  a number in \<open>[0, 1)\<close>.
\<close>

definition scheduleReconnect :: "real \<Rightarrow> WebSocketManager \<Rightarrow> WebSocketManager" where
  "scheduleReconnect random m =
     (if int (reconnectAttempts m) \<ge> maxReconnectAttempts m then m
      else
        let attempts = reconnectAttempts m + 1;
            delay = min (reconnectDelay m * 2 ^ (attempts - 1)) 30000 * (0.5 + random * 0.5)
        in m\<lparr> state := Reconnecting, reconnectAttempts := attempts, reconnectTimer := Some delay \<rparr>)"


section \<open>Example inputs\<close>

text \<open>A query operation on a table \<open>Todo\<close> with the given filters and default options.\<close>

definition exampleOperation :: "FilterCondition list \<Rightarrow> TrackedQueryOperation" where
  "exampleOperation fs =
     \<lparr> op_tableName = ''Todo'', filters = fs, op_indexName = None, pkField = ''id'',
       skField = None, sortField = None, sortOrder = Some ''asc'', limit = None \<rparr>"

text \<open>
  A query operation on a table \<open>Task\<close> that has a sort key, built with \<open>useIndex\<close> and
  \<open>take\<close>: none of its options is \<open>undefined\<close>.
\<close>

definition indexedOperation :: "FilterCondition list \<Rightarrow> TrackedQueryOperation" where
  "indexedOperation fs =
     \<lparr> op_tableName = ''Task'', filters = fs, op_indexName = Some ''byList'', pkField = ''id'',
       skField = Some ''createdAt'', sortField = Some ''createdAt'', sortOrder = Some ''asc'',
       limit = Some 10 \<rparr>"

text \<open>A comparison of strings by code units, standing for \<open>localeCompare\<close> in examples.\<close>

fun codeUnitCompare :: "string \<Rightarrow> string \<Rightarrow> int" where
  "codeUnitCompare [] [] = 0"
| "codeUnitCompare [] (y # ys) = - 1"
| "codeUnitCompare (x # xs) [] = 1"
| "codeUnitCompare (x # xs) (y # ys) =
     (if x = y then codeUnitCompare xs ys
      else if (of_char x :: nat) < of_char y then - 1 else 1)"

text \<open>
  A router with the one procedure \<open>todos.list\<close>, a query without input schema whose
  resolver is given, and a handler configuration around it with the default time to
  live and the document client as the handler creates it.
\<close>

definition exampleRouter ::
  "(jsvalue \<Rightarrow> jsvalue \<Rightarrow> error + (jsvalue \<times> TrackedQueryOperation list)) \<Rightarrow> RouterDefinition" where
  "exampleRouter res =
     RouterNode [(''todos'', RouterNode [(''list'',
        ProcedureNode \<lparr> ptype = ''query'', inputSchema = None, resolver = res \<rparr>)])]"

definition exampleConfig ::
  "(jsvalue \<Rightarrow> jsvalue \<Rightarrow> error + (jsvalue \<times> TrackedQueryOperation list)) \<Rightarrow> ReactiveHandlerConfig" where
  "exampleConfig res =
     \<lparr> router = exampleRouter res, getContext = (\<lambda>connectionId. Inr (JObj [])),
       ttlSeconds = None, docClient = documentClient \<rparr>"

text \<open>
  Four resolvers. The first runs an indexed query without filters and then a query with
  an equality filter, and returns an empty list. The second throws. The third runs an
  indexed query with a \<open>between\<close> filter and returns an object that is not a list. The
  fourth runs one query with an equality filter made by the builder, whose \<open>value2\<close>
  holds \<open>undefined\<close>, on a table without sort key.
\<close>

definition twoQueryResolver ::
  "jsvalue \<Rightarrow> jsvalue \<Rightarrow> error + (jsvalue \<times> TrackedQueryOperation list)" where
  "twoQueryResolver ctx input =
     Inr (JArr [], [indexedOperation [],
                    exampleOperation [fb_eq ''owner'' (JStr ''u2'')]])"

definition failingResolver ::
  "jsvalue \<Rightarrow> jsvalue \<Rightarrow> error + (jsvalue \<times> TrackedQueryOperation list)" where
  "failingResolver ctx input = Inl (Error ''boom'')"

definition scalarResolver ::
  "jsvalue \<Rightarrow> jsvalue \<Rightarrow> error + (jsvalue \<times> TrackedQueryOperation list)" where
  "scalarResolver ctx input =
     Inr (JObj [(''count'', JNum 3)],
          [indexedOperation [fb_between ''rank'' (JNum 1) (JNum 5)]])"

definition equalityResolver ::
  "jsvalue \<Rightarrow> jsvalue \<Rightarrow> error + (jsvalue \<times> TrackedQueryOperation list)" where
  "equalityResolver ctx input =
     Inr (JArr [], [exampleOperation [fb_eq ''taskListId'' (JStr ''L1'')]])"

text \<open>The store after one successful subscribe request on the empty tables.\<close>

definition exampleStore :: Store where
  "exampleStore =
     fst (handleRequest (exampleConfig scalarResolver) 5000 emptyStore ''c1''
            (SubscribeRequest ''s1'' ''todos.list'' JNull))"

text \<open>A manager with the default delay and attempt limit after a number of attempts.\<close>

definition exampleManager :: "nat \<Rightarrow> WebSocketManager" where
  "exampleManager attempts =
     \<lparr> reconnectDelay = 1000, maxReconnectAttempts = 10, state = Disconnected,
       reconnectAttempts = attempts, reconnectTimer = None \<rparr>"

section \<open>The invariant on stored results\<close>

text \<open>Every row of the queries table holds an array as its last result.\<close>

definition allListValued :: "Store \<Rightarrow> bool" where
  "allListValued s = (\<forall>k entry. queriesTable s k = Some entry \<longrightarrow> isArray (lastResult entry))"

text \<open>
  The row that \<open>handleSubscribe\<close> builds from the result of the procedure and the
  operations it tracked, with a fresh tracker.
\<close>

definition subscribedRow ::
  "ReactiveHandlerConfig \<Rightarrow> int \<Rightarrow> string \<Rightarrow> string \<Rightarrow> jsvalue \<Rightarrow> TrackedQueryOperation list \<Rightarrow>
     QueryEntry" where
  "subscribedRow config now connectionId subscriptionId result tracked =
     makeQueryEntry connectionId subscriptionId (getQueryMetadata tracked) result
       (getDependencyKeys tracked) now
       (now div 1000 + (case ttlSeconds config of None \<Rightarrow> 3600 | Some t \<Rightarrow> t))"

section \<open>Round trip of dependency keys\<close>

lemma js_split_not_Nil: "js_split sep s \<noteq> []"
  by (induction s) (auto split: list.splits)

lemma js_split_append_sep:
  "sep \<notin> set a \<Longrightarrow> js_split sep (a @ sep # b) = a # js_split sep b"
  by (induction a) auto

lemma js_join_js_split: "js_join [sep] (js_split sep s) = s"
proof (induction s)
  case Nil
  show ?case by simp
next
  case (Cons c cs)
  obtain p ps where sp: "js_split sep cs = p # ps"
    using js_split_not_Nil [of sep cs] by (cases "js_split sep cs") auto
  show ?case
  proof (cases "c = sep")
    case True
    with Cons sp show ?thesis by simp
  next
    case False
    with Cons sp show ?thesis by (cases ps) auto
  qed
qed

text \<open>
  Claim C1, as amended. For every dependency whose table name and field name contain no
  \<open>#\<close> (the field value may contain any number of them), parsing the created key gives
  back the table name, the field name and the field value; the parsed dependency never
  has an index name, so it equals the original exactly when that one has none.
\<close>

theorem parseDependencyKey_createDependencyKey:
  assumes "CHR ''#'' \<notin> set (tableName d)" and "CHR ''#'' \<notin> set (fieldName d)"
  shows "parseDependencyKey (createDependencyKey d) = Some (d\<lparr> indexName := None \<rparr>)"
proof -
  let ?v = "fieldValue d"
  obtain p ps where sp: "js_split CHR ''#'' ?v = p # ps"
    using js_split_not_Nil [of "CHR ''#''" ?v] by (cases "js_split CHR ''#'' ?v") auto
  have parts: "js_split CHR ''#'' (createDependencyKey d) =
                 tableName d # fieldName d # js_split CHR ''#'' ?v"
    using assms by (simp add: createDependencyKey_def js_split_append_sep)
  have "js_join ''#'' (js_split CHR ''#'' ?v) = ?v"
    by (rule js_join_js_split)
  with parts sp show ?thesis
    by (simp add: parseDependencyKey_def)
qed

theorem parseDependencyKey_createDependencyKey_witness:
  "parseDependencyKey (createDependencyKey
      \<lparr> tableName = ''Todo'', fieldName = ''tag'', fieldValue = ''a#b##c'', indexName = None \<rparr>)
   = Some \<lparr> tableName = ''Todo'', fieldName = ''tag'', fieldValue = ''a#b##c'', indexName = None \<rparr>"
  using parseDependencyKey_createDependencyKey
    [of "\<lparr> tableName = ''Todo'', fieldName = ''tag'', fieldValue = ''a#b##c'', indexName = None \<rparr>"]
  by simp

text \<open>
  The round trip as stated for every dependency fails: the index name is not part of the
  key, and a \<open>#\<close> in the field name moves the segment boundaries.
\<close>

theorem parseDependencyKey_roundtrip_counterexample:
  "parseDependencyKey (createDependencyKey
      \<lparr> tableName = ''Todo'', fieldName = ''taskListId'', fieldValue = ''L1'',
        indexName = Some ''byTaskId'' \<rparr>)
   \<noteq> Some \<lparr> tableName = ''Todo'', fieldName = ''taskListId'', fieldValue = ''L1'',
        indexName = Some ''byTaskId'' \<rparr>
   \<and> parseDependencyKey (createDependencyKey
      \<lparr> tableName = ''Todo'', fieldName = ''a#b'', fieldValue = ''L1'', indexName = None \<rparr>)
   \<noteq> Some \<lparr> tableName = ''Todo'', fieldName = ''a#b'', fieldValue = ''L1'', indexName = None \<rparr>"
  by (simp add: parseDependencyKey_def createDependencyKey_def)

section \<open>Affected keys of a changed item\<close>






section \<open>Reading the properties of a filter condition\<close>

lemma operator_FilterCondition [simp]:
  "operator (FilterCondition type opM fM vM v2M csM) = valueOf opM"
  by (simp add: operator_def)

lemma field_FilterCondition [simp]:
  "field (FilterCondition type opM fM vM v2M csM) = valueOf fM"
  by (simp add: field_def)

lemma cvalue_FilterCondition [simp]:
  "cvalue (FilterCondition type opM fM vM v2M csM) = readValue vM"
  by (simp add: cvalue_def)

lemma cvalue2_FilterCondition [simp]:
  "cvalue2 (FilterCondition type opM fM vM v2M csM) = readValue v2M"
  by (simp add: cvalue2_def)

lemma conditions_FilterCondition [simp]:
  "conditions (FilterCondition type opM fM vM v2M csM) = valueOf csM"
  by (simp add: conditions_def)

lemma valueOf_simps [simp]:
  "valueOf Absent = None" "valueOf Undefined = None" "valueOf (Holds x) = Some x"
  by (simp_all add: valueOf_def)

lemma given_simps [simp]:
  "given None = Undefined" "given (Some x) = Holds x"
  by (simp_all add: given_def)

lemma readValue_simps [simp]:
  "readValue None = JUndefined" "readValue (Some v) = v"
  by (simp_all add: readValue_def)

section \<open>Dependencies of a query operation\<close>






section \<open>Malformed filter conditions\<close>










section \<open>The between filter\<close>

text \<open>
  The builder tags \<open>between\<close> as a function and normalisation renames its operator to
  \<open>between\<close> under that tag, while the evaluator knows \<open>between\<close> only as a comparison:
  the function evaluator has no case for it.
\<close>

lemma between_never_matches:
  "evaluateFilter lc (normalizeFilter (fb_between fld lower upper)) record = False"
  "evaluateFilter lc (fb_between fld lower upper) record = False"
  by (simp_all add: fb_between_def createCondition_def normalizeOperator_def
      functionOperatorMap_def evaluateFunction_def the_str_def)

text \<open>
  Claim C2 at a failing input. The record's \<open>age\<close> is 5 and the filter is
  \<open>between(age, 1, 10)\<close>: the value is not below the lower bound and not above the
  upper bound, yet the filter evaluates to false, as stored for replay and as built.
\<close>

theorem between_in_range_evaluates_false:
  "evaluateFilters codeUnitCompare
      (filterConditions (operationToQueryMetadata
         (exampleOperation [fb_between ''age'' (JNum 1) (JNum 10)])))
      (JObj [(''age'', JNum 5)]) = False
   \<and> evaluateFilter codeUnitCompare (fb_between ''age'' (JNum 1) (JNum 10))
        (JObj [(''age'', JNum 5)]) = False
   \<and> compareValues codeUnitCompare (getFieldValue (JObj [(''age'', JNum 5)]) ''age'') (JNum 1) \<ge> 0
   \<and> compareValues codeUnitCompare (getFieldValue (JObj [(''age'', JNum 5)]) ''age'') (JNum 10) \<le> 0"
  by (simp add: operationToQueryMetadata_def exampleOperation_def normalizeFilters_def
      evaluateFilters_def fb_between_def createCondition_def normalizeOperator_def
      functionOperatorMap_def evaluateFunction_def the_str_def compareValues_def
      getFieldValue_def obj_get_def nullish_def)

section \<open>Subscribe requests\<close>

lemma fold_track: "fold track tracked operations = operations @ tracked"
  by (induction tracked arbitrary: operations) (simp_all add: track_def)

lemma queriesTable_putDependency [simp]:
  "queriesTable (putDependency item s) = queriesTable s"
  by (simp add: putDependency_def)

lemma queriesTable_deleteDependency [simp]:
  "queriesTable (deleteDependency k s) = queriesTable s"
  by (simp add: deleteDependency_def)

lemma dependenciesTable_putQuery [simp]:
  "dependenciesTable (putQuery item s) = dependenciesTable s"
  by (simp add: putQuery_def)

lemma queriesTable_putDependencies:
  "queriesTable (fst (putDependencies client items s)) = queriesTable s"
  by (induction items arbitrary: s) (simp_all split: option.splits)

lemma queriesTable_deleteDependencies:
  "queriesTable (fst (deleteDependencies client ks s)) = queriesTable s"
  by (induction ks arbitrary: s) (simp_all split: option.splits)

lemma putDependencies_accepted:
  "snd (putDependencies client items s) = None \<longleftrightarrow>
     (\<forall>item \<in> set items. client (PutCommand dependenciesTableName (dependencyItemObject item)) = None)"
  by (induction items arbitrary: s) (auto split: option.splits)

lemma dom_putDependencies:
  "snd (putDependencies client items s) = None \<Longrightarrow>
     dom (dependenciesTable (fst (putDependencies client items s))) =
       dom (dependenciesTable s) \<union> (\<lambda>item. (dep_pk item, dep_sk item)) ` set items"
  by (induction items arbitrary: s) (auto simp: putDependency_def split: option.splits)

lemma getDependencyKeys_append:
  "getDependencyKeys (xs @ ys) = getDependencyKeys xs @ getDependencyKeys ys"
  by (simp add: getDependencyKeys_def extractAll_def)

lemma handleSubscribe_failure:
  "execute (router config) path ctx input = Inl e \<Longrightarrow>
     handleSubscribe config now store c sub path input ctx tr = (store, Inl e)"
  by (simp add: handleSubscribe_def)

lemma handleSubscribe_row_rejected:
  assumes "execute (router config) path ctx input = Inr (result, tracked)"
    and "docClient config
           (PutCommand queriesTableName
              (queryEntryItem (subscribedRow config now c sub result tracked))) = Some e"
  shows "handleSubscribe config now store c sub path input ctx [] = (store, Inl e)"
  using assms by (simp add: handleSubscribe_def Let_def fold_track subscribedRow_def)

lemma handleSubscribe_row_accepted:
  assumes "execute (router config) path ctx input = Inr (result, tracked)"
    and "docClient config
           (PutCommand queriesTableName
              (queryEntryItem (subscribedRow config now c sub result tracked))) = None"
  shows "queriesTable (fst (handleSubscribe config now store c sub path input ctx [])) =
           (queriesTable store)((c, sub) \<mapsto> subscribedRow config now c sub result tracked)"
proof -
  let ?row = "subscribedRow config now c sub result tracked"
  let ?items = "map (makeDependencyItem c sub
                  (now div 1000 + (case ttlSeconds config of None \<Rightarrow> 3600 | Some t \<Rightarrow> t)))
                  (getDependencyKeys tracked)"
  have "fst (handleSubscribe config now store c sub path input ctx []) =
          fst (putDependencies (docClient config) ?items (putQuery ?row store))"
    using assms
    by (simp add: handleSubscribe_def Let_def fold_track subscribedRow_def split: prod.splits option.splits)
  then show ?thesis
    by (simp add: queriesTable_putDependencies putQuery_def subscribedRow_def makeQueryEntry_def)
qed

lemma handleSubscribe_returns:
  assumes "execute (router config) path ctx input = Inr (result, tracked)"
    and "snd (handleSubscribe config now store c sub path input ctx []) = Inr response"
  shows "response = SnapshotResponse sub result"
    and "docClient config
           (PutCommand queriesTableName
              (queryEntryItem (subscribedRow config now c sub result tracked))) = None"
    and "dom (dependenciesTable (fst (handleSubscribe config now store c sub path input ctx []))) =
           dom (dependenciesTable store) \<union>
           (\<lambda>key. (key, c @ ''#'' @ sub)) ` set (getDependencyKeys tracked)"
proof -
  let ?row = "subscribedRow config now c sub result tracked"
  let ?ttl = "now div 1000 + (case ttlSeconds config of None \<Rightarrow> 3600 | Some t \<Rightarrow> t)"
  let ?items = "map (makeDependencyItem c sub ?ttl) (getDependencyKeys tracked)"
  let ?put = "putDependencies (docClient config) ?items (putQuery ?row store)"
  show accepted: "docClient config (PutCommand queriesTableName (queryEntryItem ?row)) = None"
    using assms
    by (cases "docClient config (PutCommand queriesTableName (queryEntryItem ?row))")
       (simp_all add: handleSubscribe_def Let_def fold_track subscribedRow_def)
  have unfold: "handleSubscribe config now store c sub path input ctx [] =
      (case ?put of (store2, Some e) \<Rightarrow> (store2, Inl e)
                  | (store2, None) \<Rightarrow> (store2, Inr (SnapshotResponse sub result)))"
    using assms(1) accepted
    by (simp add: handleSubscribe_def Let_def fold_track subscribedRow_def)
  obtain store2 outcome where put: "?put = (store2, outcome)" by (cases ?put)
  have none: "outcome = None"
    using assms(2) unfolding unfold put by (cases outcome) simp_all
  show "response = SnapshotResponse sub result"
    using assms(2) unfolding unfold put none by simp
  have "snd ?put = None" using put none by simp
  then have "dom (dependenciesTable (fst ?put)) =
      dom (dependenciesTable (putQuery ?row store)) \<union> (\<lambda>item. (dep_pk item, dep_sk item)) ` set ?items"
    by (rule dom_putDependencies)
  moreover have "fst (handleSubscribe config now store c sub path input ctx []) = fst ?put"
    unfolding unfold put none by simp
  ultimately show "dom (dependenciesTable (fst (handleSubscribe config now store c sub path input ctx []))) =
           dom (dependenciesTable store) \<union>
           (\<lambda>key. (key, c @ ''#'' @ sub)) ` set (getDependencyKeys tracked)"
    by (simp add: image_image makeDependencyItem_def)
qed

lemma handleSubscribe_succeeds:
  assumes "execute (router config) path ctx input = Inr (result, tracked)"
    and "docClient config
           (PutCommand queriesTableName
              (queryEntryItem (subscribedRow config now c sub result tracked))) = None"
    and "\<forall>key \<in> set (getDependencyKeys tracked).
           docClient config
             (PutCommand dependenciesTableName
                (dependencyItemObject
                   (makeDependencyItem c sub
                      (now div 1000 + (case ttlSeconds config of None \<Rightarrow> 3600 | Some t \<Rightarrow> t))
                      key))) = None"
  shows "snd (handleSubscribe config now store c sub path input ctx []) =
           Inr (SnapshotResponse sub result)"
proof -
  let ?row = "subscribedRow config now c sub result tracked"
  let ?ttl = "now div 1000 + (case ttlSeconds config of None \<Rightarrow> 3600 | Some t \<Rightarrow> t)"
  let ?items = "map (makeDependencyItem c sub ?ttl) (getDependencyKeys tracked)"
  let ?put = "putDependencies (docClient config) ?items (putQuery ?row store)"
  have "snd ?put = None"
    using assms(3) by (simp add: putDependencies_accepted)
  then obtain store2 where "?put = (store2, None)" by (cases ?put) simp
  then show ?thesis
    using assms(1,2) by (simp add: handleSubscribe_def Let_def fold_track subscribedRow_def)
qed

text \<open>
  Claim C3, as amended. When the procedure of a subscribe request returns after tracking
  the operations \<open>first # rest\<close> and the request succeeds (every put is accepted and the
  snapshot is returned), the stored subscription's query metadata is that of \<open>first\<close>
  alone, while its dependency keys, and the keys written to the inverted index under
  \<open>connectionId#subscriptionId\<close>, are those of every tracked operation: the keys of
  \<open>first\<close> followed by the keys of \<open>rest\<close>.
\<close>

theorem subscribe_metadata_first_keys_all:
  assumes "execute (router config) path ctx input = Inr (result, first # rest)"
    and "snd (handleSubscribe config now store c sub path input ctx []) = Inr response"
  shows "\<exists>entry.
           queriesTable (fst (handleSubscribe config now store c sub path input ctx [])) (c, sub)
             = Some entry
           \<and> queryMetadata entry = operationToQueryMetadata first
           \<and> dependencies entry = getDependencyKeys [first] @ getDependencyKeys rest
           \<and> dom (dependenciesTable (fst (handleSubscribe config now store c sub path input ctx [])))
               = dom (dependenciesTable store) \<union>
                 (\<lambda>key. (key, c @ ''#'' @ sub)) `
                   set (getDependencyKeys [first] @ getDependencyKeys rest)"
proof -
  have keys: "getDependencyKeys (first # rest) = getDependencyKeys [first] @ getDependencyKeys rest"
    using getDependencyKeys_append [of "[first]" rest] by simp
  note ret = handleSubscribe_returns [OF assms]
  show ?thesis
    using handleSubscribe_row_accepted [OF assms(1) ret(2), of store] ret(3) keys
    by (simp add: subscribedRow_def makeQueryEntry_def getQueryMetadata_def)
qed

lemma execute_example:
  "execute (router (exampleConfig res)) ''todos.list'' ctx input = res ctx input"
  by (simp add: execute_def getProcedure_def exampleConfig_def exampleRouter_def
      executeProcedure_def)

lemma keys_example:
  "getDependencyKeys [indexedOperation []] = []"
  "getDependencyKeys [exampleOperation [fb_eq ''owner'' (JStr ''u2'')]] = [''Todo#owner#u2'']"
  "getDependencyKeys [indexedOperation [fb_between ''rank'' (JNum 1) (JNum 5)]] = []"
  by (simp_all add: getDependencyKeys_def extractAll_def extractDependencies_def
      exampleOperation_def indexedOperation_def fb_eq_def fb_between_def createCondition_def
      createDependencyKey_def the_str_def)

lemma twoQuery_succeeds:
  "snd (handleSubscribe (exampleConfig twoQueryResolver) 5000 emptyStore
          ''c1'' ''s1'' ''todos.list'' JNull (JObj []) [])
     = Inr (SnapshotResponse ''s1'' (JArr []))"
proof (rule handleSubscribe_succeeds)
  show "execute (router (exampleConfig twoQueryResolver)) ''todos.list'' (JObj []) JNull =
          Inr (JArr [], [indexedOperation [], exampleOperation [fb_eq ''owner'' (JStr ''u2'')]])"
    by (simp add: execute_example twoQueryResolver_def)
  have keys: "getDependencyKeys [indexedOperation [], exampleOperation [fb_eq ''owner'' (JStr ''u2'')]]
                = [''Todo#owner#u2'']"
    using getDependencyKeys_append
      [of "[indexedOperation []]" "[exampleOperation [fb_eq ''owner'' (JStr ''u2'')]]"]
    by (simp add: keys_example)
  show "docClient (exampleConfig twoQueryResolver)
          (PutCommand queriesTableName
             (queryEntryItem (subscribedRow (exampleConfig twoQueryResolver) 5000 ''c1'' ''s1''
                (JArr []) [indexedOperation [], exampleOperation [fb_eq ''owner'' (JStr ''u2'')]])))
        = None"
    unfolding subscribedRow_def keys
    by (simp add: exampleConfig_def documentClient_def queryEntryItem_def
        makeQueryEntry_def getQueryMetadata_def operationToQueryMetadata_def
        indexedOperation_def normalizeFilters_def metadataItem_def memberItem_def isArray_def)
  show "\<forall>key \<in> set (getDependencyKeys
                       [indexedOperation [], exampleOperation [fb_eq ''owner'' (JStr ''u2'')]]).
          docClient (exampleConfig twoQueryResolver)
            (PutCommand dependenciesTableName
               (dependencyItemObject
                  (makeDependencyItem ''c1'' ''s1''
                     (5000 div 1000 +
                      (case ttlSeconds (exampleConfig twoQueryResolver) of
                         None \<Rightarrow> 3600 | Some t \<Rightarrow> t))
                     key))) = None"
    by (simp add: keys exampleConfig_def documentClient_def dependencyItemObject_def
        makeDependencyItem_def)
qed

theorem subscribe_metadata_first_keys_all_witness:
  "\<exists>entry.
     queriesTable (fst (handleSubscribe (exampleConfig twoQueryResolver) 5000 emptyStore
        ''c1'' ''s1'' ''todos.list'' JNull (JObj []) [])) (''c1'', ''s1'') = Some entry
     \<and> queryMetadata entry = operationToQueryMetadata (indexedOperation [])
     \<and> dependencies entry = [''Todo#owner#u2'']
     \<and> dom (dependenciesTable (fst (handleSubscribe (exampleConfig twoQueryResolver) 5000
          emptyStore ''c1'' ''s1'' ''todos.list'' JNull (JObj []) [])))
         = {(''Todo#owner#u2'', ''c1#s1'')}"
proof -
  have ex: "execute (router (exampleConfig twoQueryResolver)) ''todos.list'' (JObj []) JNull =
              Inr (JArr [], indexedOperation [] #
                            [exampleOperation [fb_eq ''owner'' (JStr ''u2'')]])"
    by (simp add: execute_example twoQueryResolver_def)
  show ?thesis
    using subscribe_metadata_first_keys_all [OF ex twoQuery_succeeds]
    by (simp add: keys_example emptyStore_def)
qed

text \<open>
  That the index entries come from the first tracked operation alone fails: the request
  succeeds, the second operation's key is written to the index, and it is not a key of
  the first operation.
\<close>

theorem subscribe_keys_of_later_operation_counterexample:
  "snd (handleRequest (exampleConfig twoQueryResolver) 5000 emptyStore ''c1''
          (SubscribeRequest ''s1'' ''todos.list'' JNull))
     = Inr (SnapshotResponse ''s1'' (JArr []))
   \<and> dependenciesTable
       (fst (handleRequest (exampleConfig twoQueryResolver) 5000 emptyStore ''c1''
               (SubscribeRequest ''s1'' ''todos.list'' JNull)))
       (''Todo#owner#u2'', ''c1#s1'') \<noteq> None
   \<and> ''Todo#owner#u2'' \<notin> set (getDependencyKeys [indexedOperation []])"
proof -
  have ex: "execute (router (exampleConfig twoQueryResolver)) ''todos.list'' (JObj []) JNull =
              Inr (JArr [], [indexedOperation [],
                            exampleOperation [fb_eq ''owner'' (JStr ''u2'')]])"
    by (simp add: execute_example twoQueryResolver_def)
  have ctx: "getContext (exampleConfig twoQueryResolver) ''c1'' = Inr (JObj [])"
    by (simp add: exampleConfig_def)
  have req: "handleRequest (exampleConfig twoQueryResolver) 5000 emptyStore ''c1''
               (SubscribeRequest ''s1'' ''todos.list'' JNull) =
             handleSubscribe (exampleConfig twoQueryResolver) 5000 emptyStore
               ''c1'' ''s1'' ''todos.list'' JNull (JObj []) []"
    by (simp add: handleRequest_def ctx)
  have "(''Todo#owner#u2'', ''c1#s1'') \<in>
          dom (dependenciesTable (fst (handleSubscribe (exampleConfig twoQueryResolver) 5000
                 emptyStore ''c1'' ''s1'' ''todos.list'' JNull (JObj []) [])))"
    unfolding handleSubscribe_returns(3) [OF ex twoQuery_succeeds]
    using getDependencyKeys_append
      [of "[indexedOperation []]" "[exampleOperation [fb_eq ''owner'' (JStr ''u2'')]]"]
    by (simp add: keys_example)
  then show ?thesis
    unfolding req using twoQuery_succeeds by (auto simp: keys_example)
qed

text \<open>
  The same request with a resolver whose one query has a builder-made equality filter on
  a table without sort key: the row holds \<open>undefined\<close> members, the first put throws and
  nothing is written.
\<close>

lemma subscribe_with_undefined_members_rejected:
  "handleRequest (exampleConfig equalityResolver) 5000 emptyStore ''c1''
     (SubscribeRequest ''s1'' ''todos.list'' JNull)
   = (emptyStore,
      Inl (Error ''Pass options.removeUndefinedValues=true to remove undefined values from map/array/set.''))"
proof -
  have ex: "execute (router (exampleConfig equalityResolver)) ''todos.list'' (JObj []) JNull =
              Inr (JArr [], [exampleOperation [fb_eq ''taskListId'' (JStr ''L1'')]])"
    by (simp add: execute_example equalityResolver_def)
  have rej: "docClient (exampleConfig equalityResolver)
          (PutCommand queriesTableName
             (queryEntryItem (subscribedRow (exampleConfig equalityResolver) 5000 ''c1'' ''s1''
                (JArr []) [exampleOperation [fb_eq ''taskListId'' (JStr ''L1'')]])))
        = Some (Error ''Pass options.removeUndefinedValues=true to remove undefined values from map/array/set.'')"
    by (simp add: exampleConfig_def documentClient_def queryEntryItem_def subscribedRow_def
        makeQueryEntry_def getQueryMetadata_def operationToQueryMetadata_def
        exampleOperation_def normalizeFilters_def metadataItem_def memberItem_def isArray_def)
  show ?thesis
    using handleSubscribe_row_rejected [OF ex rej, of emptyStore]
    by (simp add: handleRequest_def exampleConfig_def)
qed

lemma handleRequest_subscribe_failure:
  assumes "getContext config c = Inr ctx"
    and "execute (router config) path ctx input = Inl e"
  shows "handleRequest config now store c (SubscribeRequest sub path input) = (store, Inl e)"
  using assms by (simp add: handleRequest_def handleSubscribe_failure)

text \<open>
  Claim C8 at a failing input. The resolver of \<open>todos.list\<close> throws \<open>Error('boom')\<close>.
  Nothing is persisted (the store is the empty store it was), but the request handler
  does not return an error response: its promise is rejected with the resolver's error.
\<close>

theorem subscribe_resolver_failure_rejects:
  "handleRequest (exampleConfig failingResolver) 5000 emptyStore ''c1''
     (SubscribeRequest ''s1'' ''todos.list'' JNull) = (emptyStore, Inl (Error ''boom''))"
  by (simp add: handleRequest_def exampleConfig_def handleSubscribe_def execute_def
      getProcedure_def exampleRouter_def executeProcedure_def failingResolver_def)

section \<open>Stored results are lists\<close>

lemma isArray_subscribedRow:
  "isArray (lastResult (subscribedRow config now c sub result tracked))"
  by (simp add: subscribedRow_def makeQueryEntry_def isArray_def)

lemma handleSubscribe_queries:
  "queriesTable (fst (handleSubscribe config now s c sub path input ctx [])) = queriesTable s \<or>
   (\<exists>result tracked.
      queriesTable (fst (handleSubscribe config now s c sub path input ctx [])) =
        (queriesTable s)((c, sub) \<mapsto> subscribedRow config now c sub result tracked))"
proof (cases "execute (router config) path ctx input")
  case (Inl e)
  then show ?thesis by (simp add: handleSubscribe_failure)
next
  case (Inr r)
  obtain result tracked where r: "r = (result, tracked)" by (cases r)
  note ex = Inr [unfolded r]
  show ?thesis
  proof (cases "docClient config
                  (PutCommand queriesTableName
                     (queryEntryItem (subscribedRow config now c sub result tracked)))")
    case None
    then show ?thesis using handleSubscribe_row_accepted [OF ex, of now c sub s] by blast
  next
    case (Some e)
    then show ?thesis using handleSubscribe_row_rejected [OF ex, of now c sub e s] by simp
  qed
qed

lemma allListValued_handleSubscribe:
  assumes "allListValued s"
  shows "allListValued (fst (handleSubscribe config now s c sub path input ctx []))"
  using assms handleSubscribe_queries [of config now s c sub path input ctx]
  by (auto simp: allListValued_def isArray_subscribedRow split: if_splits)

lemma handleUnsubscribe_queries:
  "queriesTable (fst (handleUnsubscribe config s c sub)) k = Some entry \<Longrightarrow>
     queriesTable s k = Some entry"
proof -
  let ?ks = "case queriesTable s (c, sub) of
               None \<Rightarrow> []
             | Some queryEntry \<Rightarrow> map (\<lambda>key. (key, c @ ''#'' @ sub)) (dependencies queryEntry)"
  let ?del = "deleteDependencies (docClient config) ?ks s"
  assume a: "queriesTable (fst (handleUnsubscribe config s c sub)) k = Some entry"
  have q: "queriesTable (fst ?del) = queriesTable s"
    by (rule queriesTable_deleteDependencies)
  obtain s1 outcome where del: "?del = (s1, outcome)" by (cases ?del)
  have q1: "queriesTable s1 = queriesTable s" using q del by simp
  show ?thesis
    using a q1
    by (auto simp: handleUnsubscribe_def del deleteQuery_def split: option.splits if_splits)
qed

lemma allListValued_handleUnsubscribe:
  assumes "allListValued s"
  shows "allListValued (fst (handleUnsubscribe config s c sub))"
  using assms handleUnsubscribe_queries [of config s c sub]
  unfolding allListValued_def by blast

lemma allListValued_handleRequest:
  assumes "allListValued s"
  shows "allListValued (fst (handleRequest config now s c request))"
proof (cases "getContext config c")
  case (Inl e)
  with assms show ?thesis by (simp add: handleRequest_def)
next
  case (Inr ctx)
  show ?thesis
  proof (cases request)
    case (SubscribeRequest sub path input)
    with Inr assms show ?thesis
      by (simp add: handleRequest_def allListValued_handleSubscribe)
  next
    case (UnsubscribeRequest sub)
    with Inr assms show ?thesis
      by (simp add: handleRequest_def allListValued_handleUnsubscribe)
  next
    case (CallRequest path input)
    with Inr assms show ?thesis
      by (simp add: handleRequest_def handleCall_def split: sum.splits prod.splits)
  next
    case (OtherRequest type)
    with Inr assms show ?thesis by (simp add: handleRequest_def)
  qed
qed

lemma updateQueryState_writes:
  "queriesTable (updateQueryState client now s c sub newResult) k = Some written \<Longrightarrow>
     queriesTable s k = Some written \<or> lastResult written = JArr newResult"
  by (auto simp: updateQueryState_def getQueryState_def putQuery_def Let_def
      split: option.splits if_splits)

lemma updateQueryState_accepted:
  assumes "queriesTable s (c, sub) = Some existing"
    and "client (GetCommand queriesTableName (keyObject (c, sub))) = None"
    and "client (PutCommand queriesTableName
           (queryEntryItem (existing\<lparr> lastResult := JArr newResult, updatedAt := now \<rparr>))) = None"
  shows "queriesTable (updateQueryState client now s c sub newResult)
           (qe_pk existing, qe_sk existing)
         = Some (existing\<lparr> lastResult := JArr newResult, updatedAt := now \<rparr>)"
  using assms by (simp add: updateQueryState_def getQueryState_def putQuery_def Let_def)

lemma allListValued_updateQueryState:
  assumes "allListValued s"
  shows "allListValued (updateQueryState client now s c sub newResult)"
  using assms updateQueryState_writes [of client now s c sub newResult]
  unfolding allListValued_def by (fastforce simp: isArray_def)

lemma reachable_allListValued: "reachable s \<Longrightarrow> allListValued s"
proof (induction rule: reachable.induct)
  case reach_empty
  show ?case by (simp add: allListValued_def emptyStore_def)
next
  case (reach_request s config now connectionId request)
  then show ?case by (simp add: allListValued_handleRequest)
next
  case (reach_update s client now connectionId subscriptionId newResult)
  then show ?case by (simp add: allListValued_updateQueryState)
qed

text \<open>
  Claim C10. In every store that subscribe, unsubscribe and call requests and the stream
  handler's state updates can produce from empty tables, whatever the document client
  accepts or rejects, every subscription row has an array as \<open>lastResult\<close>. When the
  procedure of a subscribe request returns and the client accepts the row, the row
  stored holds the result unchanged when it is an array and wrapped in a one-element
  array otherwise; when the client rejects the row, nothing is written and the request
  is rejected; and a snapshot that is returned carries the result itself. A row that the
  state update writes holds the array the update was given, and it is written whenever
  the row exists and the client accepts the get and the put.
\<close>

theorem lastResult_list_valued:
  "(reachable s \<longrightarrow> (\<forall>k entry. queriesTable s k = Some entry \<longrightarrow> isArray (lastResult entry)))
   \<and> (execute (router config) path ctx input = Inr (result, tracked) \<and>
      docClient config
        (PutCommand queriesTableName
           (queryEntryItem (subscribedRow config now c sub result tracked))) = None \<longrightarrow>
        (\<exists>entry. queriesTable (fst (handleSubscribe config now store c sub path input ctx []))
                    (c, sub) = Some entry
                 \<and> lastResult entry = (if isArray result then result else JArr [result])))
   \<and> (execute (router config) path ctx input = Inr (result, tracked) \<and>
      docClient config
        (PutCommand queriesTableName
           (queryEntryItem (subscribedRow config now c sub result tracked))) = Some e \<longrightarrow>
        handleSubscribe config now store c sub path input ctx [] = (store, Inl e))
   \<and> (execute (router config) path ctx input = Inr (result, tracked) \<and>
      snd (handleSubscribe config now store c sub path input ctx []) = Inr response \<longrightarrow>
        response = SnapshotResponse sub result)
   \<and> (queriesTable (updateQueryState client now store c sub newResult) k = Some written \<longrightarrow>
        queriesTable store k = Some written \<or> lastResult written = JArr newResult)
   \<and> (queriesTable store (c, sub) = Some existing \<and>
      client (GetCommand queriesTableName (keyObject (c, sub))) = None \<and>
      client (PutCommand queriesTableName
        (queryEntryItem (existing\<lparr> lastResult := JArr newResult, updatedAt := now \<rparr>))) = None \<longrightarrow>
        queriesTable (updateQueryState client now store c sub newResult)
          (qe_pk existing, qe_sk existing)
          = Some (existing\<lparr> lastResult := JArr newResult, updatedAt := now \<rparr>))"
proof (intro conjI impI)
  assume "reachable s"
  then show "\<forall>k entry. queriesTable s k = Some entry \<longrightarrow> isArray (lastResult entry)"
    using reachable_allListValued [of s] by (simp add: allListValued_def)
next
  assume a: "execute (router config) path ctx input = Inr (result, tracked) \<and>
      docClient config
        (PutCommand queriesTableName
           (queryEntryItem (subscribedRow config now c sub result tracked))) = None"
  show "\<exists>entry. queriesTable (fst (handleSubscribe config now store c sub path input ctx []))
                    (c, sub) = Some entry
                 \<and> lastResult entry = (if isArray result then result else JArr [result])"
    using handleSubscribe_row_accepted [of config path ctx input result tracked now c sub store] a
    by (simp add: subscribedRow_def makeQueryEntry_def)
next
  assume "execute (router config) path ctx input = Inr (result, tracked) \<and>
      docClient config
        (PutCommand queriesTableName
           (queryEntryItem (subscribedRow config now c sub result tracked))) = Some e"
  then show "handleSubscribe config now store c sub path input ctx [] = (store, Inl e)"
    using handleSubscribe_row_rejected [of config path ctx input result tracked now c sub e store]
    by blast
next
  assume "execute (router config) path ctx input = Inr (result, tracked) \<and>
      snd (handleSubscribe config now store c sub path input ctx []) = Inr response"
  then show "response = SnapshotResponse sub result"
    using handleSubscribe_returns(1) [of config path ctx input result tracked now store c sub response]
    by blast
next
  assume "queriesTable (updateQueryState client now store c sub newResult) k = Some written"
  then show "queriesTable store k = Some written \<or> lastResult written = JArr newResult"
    by (rule updateQueryState_writes)
next
  assume "queriesTable store (c, sub) = Some existing \<and>
      client (GetCommand queriesTableName (keyObject (c, sub))) = None \<and>
      client (PutCommand queriesTableName
        (queryEntryItem (existing\<lparr> lastResult := JArr newResult, updatedAt := now \<rparr>))) = None"
  then show "queriesTable (updateQueryState client now store c sub newResult)
          (qe_pk existing, qe_sk existing)
          = Some (existing\<lparr> lastResult := JArr newResult, updatedAt := now \<rparr>)"
    using updateQueryState_accepted [where s = store and c = c and sub = sub] by blast
qed

lemma scalar_row_accepted:
  "docClient (exampleConfig scalarResolver)
     (PutCommand queriesTableName
        (queryEntryItem (subscribedRow (exampleConfig scalarResolver) 5000 ''c1'' ''s1''
           (JObj [(''count'', JNum 3)])
           [indexedOperation [fb_between ''rank'' (JNum 1) (JNum 5)]]))) = None"
  unfolding subscribedRow_def keys_example
  by (simp add: exampleConfig_def documentClient_def queryEntryItem_def
      makeQueryEntry_def getQueryMetadata_def operationToQueryMetadata_def
      indexedOperation_def normalizeFilters_def metadataItem_def memberItem_def optionItem_def
      isArray_def fb_between_def createCondition_def normalizeOperator_def functionOperatorMap_def)

lemma scalar_succeeds:
  "snd (handleSubscribe (exampleConfig scalarResolver) 5000 emptyStore
          ''c1'' ''s1'' ''todos.list'' JNull (JObj []) [])
     = Inr (SnapshotResponse ''s1'' (JObj [(''count'', JNum 3)]))"
proof (rule handleSubscribe_succeeds)
  show "execute (router (exampleConfig scalarResolver)) ''todos.list'' (JObj []) JNull =
          Inr (JObj [(''count'', JNum 3)],
               [indexedOperation [fb_between ''rank'' (JNum 1) (JNum 5)]])"
    by (simp add: execute_example scalarResolver_def)
  show "docClient (exampleConfig scalarResolver)
     (PutCommand queriesTableName
        (queryEntryItem (subscribedRow (exampleConfig scalarResolver) 5000 ''c1'' ''s1''
           (JObj [(''count'', JNum 3)])
           [indexedOperation [fb_between ''rank'' (JNum 1) (JNum 5)]]))) = None"
    by (rule scalar_row_accepted)
  show "\<forall>key \<in> set (getDependencyKeys [indexedOperation [fb_between ''rank'' (JNum 1) (JNum 5)]]).
          docClient (exampleConfig scalarResolver)
            (PutCommand dependenciesTableName
               (dependencyItemObject
                  (makeDependencyItem ''c1'' ''s1''
                     (5000 div 1000 +
                      (case ttlSeconds (exampleConfig scalarResolver) of
                         None \<Rightarrow> 3600 | Some t \<Rightarrow> t))
                     key))) = None"
    by (simp add: keys_example)
qed

theorem lastResult_list_valued_witness:
  "reachable exampleStore
   \<and> (\<exists>entry. queriesTable exampleStore (''c1'', ''s1'') = Some entry
         \<and> isArray (lastResult entry)
         \<and> lastResult entry = JArr [JObj [(''count'', JNum 3)]])
   \<and> snd (handleSubscribe (exampleConfig scalarResolver) 5000 emptyStore ''c1'' ''s1''
            ''todos.list'' JNull (JObj []) [])
        = Inr (SnapshotResponse ''s1'' (JObj [(''count'', JNum 3)]))
   \<and> handleSubscribe (exampleConfig equalityResolver) 5000 emptyStore ''c1'' ''s1''
        ''todos.list'' JNull (JObj []) []
        = (emptyStore,
           Inl (Error ''Pass options.removeUndefinedValues=true to remove undefined values from map/array/set.''))
   \<and> (\<exists>entry. queriesTable (updateQueryState documentClient 6000 exampleStore ''c1'' ''s1'' [JNum 1])
                (''c1'', ''s1'') = Some entry
         \<and> lastResult entry = JArr [JNum 1])"
proof -
  let ?cfg = "exampleConfig scalarResolver"
  let ?ops = "[indexedOperation [fb_between ''rank'' (JNum 1) (JNum 5)]]"
  let ?res = "JObj [(''count'', JNum 3)]"
  let ?undef = "Error ''Pass options.removeUndefinedValues=true to remove undefined values from map/array/set.''"
  have reach: "reachable exampleStore"
    unfolding exampleStore_def by (rule reach_request [OF reach_empty])
  have ex: "execute (router ?cfg) ''todos.list'' (JObj []) JNull = Inr (?res, ?ops)"
    by (simp add: execute_example scalarResolver_def)
  have store_eq: "exampleStore =
      fst (handleSubscribe ?cfg 5000 emptyStore ''c1'' ''s1'' ''todos.list'' JNull (JObj []) [])"
    by (simp add: exampleStore_def handleRequest_def exampleConfig_def)
  note inst = lastResult_list_valued
    [where s = exampleStore and config = ?cfg and path = "''todos.list''" and ctx = "JObj []"
       and input = JNull and result = ?res and tracked = ?ops and now = 5000
       and store = emptyStore and c = "''c1''" and sub = "''s1''"
       and response = "SnapshotResponse ''s1'' ?res"]
  have stored: "\<exists>entry. queriesTable exampleStore (''c1'', ''s1'') = Some entry
         \<and> lastResult entry = (if isArray ?res then ?res else JArr [?res])"
    using inst ex scalar_row_accepted unfolding store_eq by blast
  then obtain entry where
    entry: "queriesTable exampleStore (''c1'', ''s1'') = Some entry"
           "lastResult entry = JArr [?res]"
    by (auto simp: isArray_def)
  have arr: "isArray (lastResult entry)"
    using inst reach entry(1) by blast
  have row: "entry = subscribedRow ?cfg 5000 ''c1'' ''s1'' ?res ?ops"
    using entry(1) handleSubscribe_row_accepted [OF ex scalar_row_accepted, of emptyStore]
    unfolding store_eq by simp
  have ex2: "execute (router (exampleConfig equalityResolver)) ''todos.list'' (JObj []) JNull =
              Inr (JArr [], [exampleOperation [fb_eq ''taskListId'' (JStr ''L1'')]])"
    by (simp add: execute_example equalityResolver_def)
  have rej: "docClient (exampleConfig equalityResolver)
          (PutCommand queriesTableName
             (queryEntryItem (subscribedRow (exampleConfig equalityResolver) 5000 ''c1'' ''s1''
                (JArr []) [exampleOperation [fb_eq ''taskListId'' (JStr ''L1'')]])))
        = Some ?undef"
    by (simp add: exampleConfig_def documentClient_def queryEntryItem_def subscribedRow_def
        makeQueryEntry_def getQueryMetadata_def operationToQueryMetadata_def
        exampleOperation_def normalizeFilters_def metadataItem_def memberItem_def isArray_def)
  have rejected: "handleSubscribe (exampleConfig equalityResolver) 5000 emptyStore ''c1'' ''s1''
        ''todos.list'' JNull (JObj []) [] = (emptyStore, Inl ?undef)"
    using lastResult_list_valued
      [where config = "exampleConfig equalityResolver" and path = "''todos.list''"
         and ctx = "JObj []" and input = JNull and result = "JArr []"
         and tracked = "[exampleOperation [fb_eq ''taskListId'' (JStr ''L1'')]]" and now = 5000
         and store = emptyStore and c = "''c1''" and sub = "''s1''" and e = ?undef]
      ex2 rej by blast
  have keys: "qe_pk entry = ''c1''" "qe_sk entry = ''s1''"
    unfolding row by (simp_all add: subscribedRow_def makeQueryEntry_def)
  have put_ok: "documentClient (PutCommand queriesTableName
        (queryEntryItem (entry\<lparr> lastResult := JArr [JNum 1], updatedAt := 6000 \<rparr>))) = None"
    unfolding row subscribedRow_def keys_example
    by (simp add: exampleConfig_def documentClient_def queryEntryItem_def
      makeQueryEntry_def getQueryMetadata_def operationToQueryMetadata_def
      indexedOperation_def normalizeFilters_def metadataItem_def memberItem_def optionItem_def
      isArray_def fb_between_def createCondition_def normalizeOperator_def functionOperatorMap_def)
  have get_ok: "documentClient (GetCommand queriesTableName (keyObject (''c1'', ''s1''))) = None"
    by (simp add: documentClient_def keyObject_def)
  have upd: "queriesTable (updateQueryState documentClient 6000 exampleStore ''c1'' ''s1'' [JNum 1])
                (''c1'', ''s1'') = Some (entry\<lparr> lastResult := JArr [JNum 1], updatedAt := 6000 \<rparr>)"
    using lastResult_list_valued
      [where store = exampleStore and c = "''c1''" and sub = "''s1''" and existing = entry
         and now = 6000 and newResult = "[JNum 1]" and client = documentClient]
      entry(1) keys get_ok put_ok by simp
  from reach entry arr scalar_succeeds rejected upd show ?thesis by simp
qed

section \<open>Reconnect backoff\<close>

lemma jitter_between:
  fixes base j :: real
  assumes "1 / 2 \<le> j" and "j \<le> 1"
  shows "min (base / 2) base \<le> base * j \<and> base * j \<le> max (base / 2) base"
proof (cases "0 \<le> base")
  case True
  have "0 \<le> base * (j - 1 / 2)" using True assms by (intro mult_nonneg_nonneg) simp_all
  moreover have "0 \<le> base * (1 - j)" using True assms by (intro mult_nonneg_nonneg) simp_all
  ultimately show ?thesis using True by (simp add: algebra_simps min_def max_def)
next
  case False
  then have neg: "base \<le> 0" by simp
  have "base * (j - 1 / 2) \<le> 0" using neg assms by (intro mult_nonpos_nonneg) simp_all
  moreover have "base * (1 - j) \<le> 0" using neg assms by (intro mult_nonpos_nonneg) simp_all
  ultimately show ?thesis using neg by (simp add: algebra_simps min_def max_def)
qed

lemma scheduleReconnect_exhausted:
  "maxReconnectAttempts m \<le> int (reconnectAttempts m) \<Longrightarrow> scheduleReconnect random m = m"
  by (simp add: scheduleReconnect_def)

lemma fold_scheduleReconnect_exhausted:
  "maxReconnectAttempts m \<le> int (reconnectAttempts m) \<Longrightarrow> fold scheduleReconnect draws m = m"
  by (induction draws) (simp_all add: scheduleReconnect_exhausted)

text \<open>
  Claim C9. For the \<open>n\<close>-th attempt, \<open>1 \<le> n \<le> maxReconnectAttempts\<close>, and a draw
  \<open>random\<close> of \<open>Math.random()\<close> in \<open>[0, 1)\<close>, the timer is set to
  \<open>min(reconnectDelay * 2^(n-1), 30000)\<close> times the jitter \<open>0.5 + random * 0.5\<close>, an
  affine image of the draw that lies in \<open>[0.5, 1)\<close>; the delay lies between half the
  capped value and the capped value. Once the attempt counter has reached the limit,
  no sequence of further calls sets a timer or changes the manager at all.
\<close>

theorem scheduleReconnect_backoff:
  "(0 \<le> random \<and> random < 1 \<and> 1 \<le> n \<and> int n \<le> maxReconnectAttempts m \<and>
    reconnectAttempts m = n - 1 \<longrightarrow>
      (let base = min (reconnectDelay m * 2 ^ (n - 1)) 30000;
           jitter = 0.5 + random * 0.5
       in reconnectTimer (scheduleReconnect random m) = Some (base * jitter)
          \<and> 0.5 \<le> jitter \<and> jitter < 1
          \<and> min (base / 2) base \<le> base * jitter \<and> base * jitter \<le> max (base / 2) base
          \<and> reconnectAttempts (scheduleReconnect random m) = n
          \<and> state (scheduleReconnect random m) = Reconnecting))
   \<and> (maxReconnectAttempts m \<le> int (reconnectAttempts m) \<longrightarrow>
        fold scheduleReconnect draws m = m)"
proof (intro conjI impI)
  assume a: "0 \<le> random \<and> random < 1 \<and> 1 \<le> n \<and> int n \<le> maxReconnectAttempts m \<and>
    reconnectAttempts m = n - 1"
  let ?base = "min (reconnectDelay m * 2 ^ (n - 1)) 30000"
  let ?jitter = "0.5 + random * 0.5"
  have lt: "\<not> maxReconnectAttempts m \<le> int (reconnectAttempts m)" using a by auto
  have suc: "reconnectAttempts m + 1 = n" using a by auto
  have timer: "reconnectTimer (scheduleReconnect random m) = Some (?base * ?jitter)"
    using lt suc by (simp add: scheduleReconnect_def Let_def)
  have att: "reconnectAttempts (scheduleReconnect random m) = n"
    using lt suc by (simp add: scheduleReconnect_def Let_def)
  have st: "state (scheduleReconnect random m) = Reconnecting"
    using lt by (simp add: scheduleReconnect_def Let_def)
  have j: "0.5 \<le> ?jitter" "?jitter < 1" using a by auto
  have "1 / 2 \<le> ?jitter" "?jitter \<le> 1" using j by simp_all
  then have btw: "min (?base / 2) ?base \<le> ?base * ?jitter \<and> ?base * ?jitter \<le> max (?base / 2) ?base"
    by (rule jitter_between)
  show "let base = min (reconnectDelay m * 2 ^ (n - 1)) 30000;
           jitter = 0.5 + random * 0.5
       in reconnectTimer (scheduleReconnect random m) = Some (base * jitter)
          \<and> 0.5 \<le> jitter \<and> jitter < 1
          \<and> min (base / 2) base \<le> base * jitter \<and> base * jitter \<le> max (base / 2) base
          \<and> reconnectAttempts (scheduleReconnect random m) = n
          \<and> state (scheduleReconnect random m) = Reconnecting"
    unfolding Let_def using timer att st j btw by blast
next
  assume "maxReconnectAttempts m \<le> int (reconnectAttempts m)"
  then show "fold scheduleReconnect draws m = m"
    by (rule fold_scheduleReconnect_exhausted)
qed

theorem scheduleReconnect_backoff_witness:
  "reconnectTimer (scheduleReconnect (1 / 2) (exampleManager 2)) = Some 3000
   \<and> reconnectAttempts (scheduleReconnect (1 / 2) (exampleManager 2)) = 3
   \<and> reconnectTimer (scheduleReconnect (1 / 2) (exampleManager 9)) = Some 22500
   \<and> fold scheduleReconnect [1 / 10, 9 / 10] (exampleManager 10) = exampleManager 10"
proof -
  have a: "reconnectTimer (scheduleReconnect (1 / 2) (exampleManager 2)) = Some 3000
     \<and> reconnectAttempts (scheduleReconnect (1 / 2) (exampleManager 2)) = 3"
    using scheduleReconnect_backoff [of "1 / 2" 3 "exampleManager 2"]
    by (simp add: exampleManager_def Let_def)
  have b: "reconnectTimer (scheduleReconnect (1 / 2) (exampleManager 9)) = Some 22500"
    using scheduleReconnect_backoff [of "1 / 2" 10 "exampleManager 9"]
    by (simp add: exampleManager_def Let_def)
  have c: "fold scheduleReconnect [1 / 10, 9 / 10] (exampleManager 10) = exampleManager 10"
    using scheduleReconnect_backoff [of _ _ "exampleManager 10" "[1 / 10, 9 / 10]"]
    by (simp add: exampleManager_def)
  from a b c show ?thesis by blast
qed

end
